theory Spec2Isabelle
  imports Complex_Main
begin

section \<open>Tensors and the tensor operations the model uses\<close>

text \<open>
  The exceptions the code and the tensor engine raise. \<open>AssertionError\<close> is a failed
  \<^verbatim>\<open>assert\<close>; \<open>RuntimeError\<close> is a shape mismatch reported by a tensor operation;
  \<open>UnboundLocalError\<close> is a read of a local name that has no value yet (Python's
  subclass of \<^verbatim>\<open>NameError\<close>).
\<close>

datatype error =
  AssertionError | RuntimeError | UnboundLocalError | AttributeError | TypeError
  | ValueError | IndexError

definition bindE :: "error + 'a \<Rightarrow> ('a \<Rightarrow> error + 'b) \<Rightarrow> error + 'b" where
  "bindE m f = (case m of Inl e \<Rightarrow> Inl e | Inr x \<Rightarrow> f x)"

text \<open>
  A feature map in NCHW layout: its four extents and its entries. Entries are real
  numbers (the idealisation of the engine's floating-point values). Only entries at
  indices inside the extents are meaningful.
\<close>

record tensor4 =
  dN :: nat
  dC :: nat
  dH :: nat
  dW :: nat
  elem :: "nat \<Rightarrow> nat \<Rightarrow> nat \<Rightarrow> nat \<Rightarrow> real"

definition shape :: "tensor4 \<Rightarrow> nat \<times> nat \<times> nat \<times> nat" where
  "shape x = (dN x, dC x, dH x, dW x)"

text \<open>
  Slices \<^verbatim>\<open>x[:, lo:hi, :, :]\<close>, \<^verbatim>\<open>x[:, :, :h, :]\<close> and \<^verbatim>\<open>x[:, :, :, :w]\<close>.
  A Python slice clamps its bounds to the extent and never raises.
\<close>

definition slice_channels :: "tensor4 \<Rightarrow> nat \<Rightarrow> nat \<Rightarrow> tensor4" where
  "slice_channels x lo hi =
     x\<lparr>dC := min hi (dC x) - min lo (dC x),
       elem := (\<lambda>n c i j. elem x n (min lo (dC x) + c) i j)\<rparr>"

definition crop_rows :: "tensor4 \<Rightarrow> nat \<Rightarrow> tensor4" where
  "crop_rows x h = x\<lparr>dH := min h (dH x)\<rparr>"

definition crop_cols :: "tensor4 \<Rightarrow> nat \<Rightarrow> tensor4" where
  "crop_cols x w = x\<lparr>dW := min w (dW x)\<rparr>"

text \<open>Elementwise functions: \<^verbatim>\<open>torch.tanh\<close>, \<^verbatim>\<open>torch.sigmoid\<close>, \<^verbatim>\<open>nn.ReLU\<close>.\<close>

definition sigmoid :: "real \<Rightarrow> real" where
  "sigmoid x = 1 / (1 + exp (- x))"

definition relu :: "real \<Rightarrow> real" where
  "relu x = max 0 x"

definition tmap :: "(real \<Rightarrow> real) \<Rightarrow> tensor4 \<Rightarrow> tensor4" where
  "tmap f x = x\<lparr>elem := (\<lambda>n c i j. f (elem x n c i j))\<rparr>"

text \<open>
  Binary elementwise operations broadcast: two extents are compatible when they are
  equal or one of them is 1, and an extent of 1 is read at index 0. The in-place
  form \<^verbatim>\<open>x += y\<close> also requires the broadcast shape to be the shape of \<open>x\<close>.
\<close>

definition bcompat :: "nat \<Rightarrow> nat \<Rightarrow> bool" where
  "bcompat a b \<longleftrightarrow> a = b \<or> a = 1 \<or> b = 1"

definition bdim :: "nat \<Rightarrow> nat \<Rightarrow> nat" where
  "bdim a b = (if a = 1 then b else a)"

definition bidx :: "nat \<Rightarrow> nat \<Rightarrow> nat" where
  "bidx d i = (if d = 1 then 0 else i)"

definition broadcast2 :: "(real \<Rightarrow> real \<Rightarrow> real) \<Rightarrow> tensor4 \<Rightarrow> tensor4 \<Rightarrow> tensor4" where
  "broadcast2 f x y =
     \<lparr>dN = bdim (dN x) (dN y), dC = bdim (dC x) (dC y),
      dH = bdim (dH x) (dH y), dW = bdim (dW x) (dW y),
      elem = (\<lambda>a b i j.
        f (elem x (bidx (dN x) a) (bidx (dC x) b) (bidx (dH x) i) (bidx (dW x) j))
          (elem y (bidx (dN y) a) (bidx (dC y) b) (bidx (dH y) i) (bidx (dW y) j)))\<rparr>"

definition binop :: "(real \<Rightarrow> real \<Rightarrow> real) \<Rightarrow> tensor4 \<Rightarrow> tensor4 \<Rightarrow> error + tensor4" where
  "binop f x y =
     (if bcompat (dN x) (dN y) \<and> bcompat (dC x) (dC y) \<and>
         bcompat (dH x) (dH y) \<and> bcompat (dW x) (dW y)
      then Inr (broadcast2 f x y) else Inl RuntimeError)"

definition tadd :: "tensor4 \<Rightarrow> tensor4 \<Rightarrow> error + tensor4" where
  "tadd x y = binop (+) x y"

definition tmul :: "tensor4 \<Rightarrow> tensor4 \<Rightarrow> error + tensor4" where
  "tmul x y = binop (*) x y"

definition iadd :: "tensor4 \<Rightarrow> tensor4 \<Rightarrow> error + tensor4" where
  "iadd x y = bindE (binop (+) x y)
     (\<lambda>z. if shape z = shape x then Inr z else Inl RuntimeError)"

subsection \<open>Two-dimensional convolution\<close>

text \<open>
  \<^verbatim>\<open>nn.Conv2d\<close> with stride 1: the channel counts, the kernel extent, the zero padding
  on each side, and the parameters. A weight is indexed by output channel, input
  channel, kernel row and kernel column.
\<close>

record conv2d =
  conv_in :: nat
  conv_out :: nat
  kernel_h :: nat
  kernel_w :: nat
  padding_h :: nat
  padding_w :: nat
  weight :: "nat \<Rightarrow> nat \<Rightarrow> nat \<Rightarrow> nat \<Rightarrow> real"
  bias :: "nat \<Rightarrow> real"

type_synonym conv_params = "(nat \<Rightarrow> nat \<Rightarrow> nat \<Rightarrow> nat \<Rightarrow> real) \<times> (nat \<Rightarrow> real)"

text \<open>
  The constructor. The engine draws the initial parameters at random; here they are
  an argument. A negative kernel extent cannot be allocated and raises.
\<close>

definition Conv2d :: "conv_params \<Rightarrow> nat \<Rightarrow> nat \<Rightarrow> int \<times> int \<Rightarrow> int \<times> int \<Rightarrow> error + conv2d" where
  "Conv2d prm cin cout ks pad =
     (if fst ks < 0 \<or> snd ks < 0 then Inl RuntimeError
      else Inr \<lparr>conv_in = cin, conv_out = cout,
                kernel_h = nat (fst ks), kernel_w = nat (snd ks),
                padding_h = nat (fst pad), padding_w = nat (snd pad),
                weight = fst prm, bias = snd prm\<rparr>)"

text \<open>The entry at row \<open>i\<close>, column \<open>j\<close> of the input after zero padding.\<close>

definition padded_at :: "tensor4 \<Rightarrow> nat \<Rightarrow> nat \<Rightarrow> nat \<Rightarrow> nat \<Rightarrow> nat \<Rightarrow> nat \<Rightarrow> real" where
  "padded_at x ph pw n c i j =
     (if ph \<le> i \<and> i - ph < dH x \<and> pw \<le> j \<and> j - pw < dW x
      then elem x n c (i - ph) (j - pw) else 0)"

definition conv_at :: "conv2d \<Rightarrow> tensor4 \<Rightarrow> nat \<Rightarrow> nat \<Rightarrow> nat \<Rightarrow> nat \<Rightarrow> real" where
  "conv_at cv x n co i j =
     bias cv co +
     (\<Sum>ci\<leftarrow>[0..<conv_in cv]. \<Sum>ki\<leftarrow>[0..<kernel_h cv]. \<Sum>kj\<leftarrow>[0..<kernel_w cv].
        weight cv co ci ki kj * padded_at x (padding_h cv) (padding_w cv) n ci (i + ki) (j + kj))"

text \<open>
  The forward pass (cross-correlation). The engine raises when the input's channel
  count is not the configured one and when the kernel is larger than the padded input.
\<close>

definition conv2d_output :: "conv2d \<Rightarrow> tensor4 \<Rightarrow> tensor4" where
  "conv2d_output cv x =
     \<lparr>dN = dN x, dC = conv_out cv,
      dH = dH x + 2 * padding_h cv - kernel_h cv + 1,
      dW = dW x + 2 * padding_w cv - kernel_w cv + 1,
      elem = conv_at cv x\<rparr>"

definition conv2d_forward :: "conv2d \<Rightarrow> tensor4 \<Rightarrow> error + tensor4" where
  "conv2d_forward cv x =
     (if dC x \<noteq> conv_in cv then Inl RuntimeError
      else if dH x + 2 * padding_h cv < kernel_h cv \<or> dW x + 2 * padding_w cv < kernel_w cv
        then Inl RuntimeError
      else Inr (conv2d_output cv x))"

section \<open>GatedActivation\<close>

text \<open>Computes \<open>tanh(f) * sigmoid(g)\<close> on the two halves of the channels.\<close>

definition GatedActivation_forward :: "tensor4 \<Rightarrow> error + tensor4" where
  "GatedActivation_forward x =
     (let c = dC x in
      if c mod 2 \<noteq> 0 then Inl AssertionError
      else tmul (tmap tanh (slice_channels x 0 (c div 2)))
                (tmap sigmoid (slice_channels x (c div 2) c)))"

section \<open>GatedPixelCNNLayer\<close>

record layer_params =
  p_vstack_1xN :: conv_params
  p_vstack_Nx1 :: conv_params
  p_vstack_1x1 :: conv_params
  p_link :: conv_params
  p_hstack_1xN :: conv_params
  p_hstack_residual :: conv_params
  p_hstack_skip :: conv_params

record layer =
  in_channels :: nat
  out_channels :: nat
  kernel_size :: int
  padding :: int
  is_causal :: bool
  vstack_1xN :: conv2d
  vstack_Nx1 :: conv2d
  vstack_1x1 :: conv2d
  link :: conv2d
  hstack_1xN :: conv2d
  hstack_residual :: conv2d
  hstack_skip :: conv2d

text \<open>
  The constructor. \<open>kernel_size\<close> is a Python integer, so \<open>%\<close> and \<open>//\<close> are floor
  modulus and floor division, as \<open>mod\<close> and \<open>div\<close> on \<open>int\<close> are.
\<close>

definition GatedPixelCNNLayer_init ::
    "layer_params \<Rightarrow> nat \<Rightarrow> nat \<Rightarrow> int \<Rightarrow> bool \<Rightarrow> error + layer" where
  "GatedPixelCNNLayer_init prm in_ch out_ch ksize causal =
     (if ksize mod 2 \<noteq> 1 then Inl AssertionError
      else
        let pad = (ksize - 1) div 2 in
        bindE (Conv2d (p_vstack_1xN prm) in_ch out_ch (1, ksize) (0, pad)) (\<lambda>v1xN.
        bindE (Conv2d (p_vstack_Nx1 prm) out_ch (2 * out_ch) (ksize div 2 + 1, 1) (pad + 1, 0)) (\<lambda>vNx1.
        bindE (Conv2d (p_vstack_1x1 prm) in_ch (2 * out_ch) (1, 1) (0, 0)) (\<lambda>v1x1.
        bindE (Conv2d (p_link prm) (2 * out_ch) (2 * out_ch) (1, 1) (0, 0)) (\<lambda>lnk.
        bindE (Conv2d (p_hstack_1xN prm) in_ch (2 * out_ch) (1, ksize div 2 + 1)
                 (0, pad + (if causal then 1 else 0))) (\<lambda>h1xN.
        bindE (Conv2d (p_hstack_residual prm) out_ch out_ch (1, 1) (0, 0)) (\<lambda>hres.
        bindE (Conv2d (p_hstack_skip prm) out_ch out_ch (1, 1) (0, 0)) (\<lambda>hskip.
        Inr \<lparr>in_channels = in_ch, out_channels = out_ch, kernel_size = ksize,
             padding = pad, is_causal = causal,
             vstack_1xN = v1xN, vstack_Nx1 = vNx1, vstack_1x1 = v1x1, link = lnk,
             hstack_1xN = h1xN, hstack_residual = hres, hstack_skip = hskip\<rparr>))))))))"

text \<open>
  The forward pass, statement by statement. \<open>link\<close> is computed from the cropped
  output of the two vertical convolutions before the 1x1 shortcut is added to it.
\<close>

definition GatedPixelCNNLayer_forward ::
    "layer \<Rightarrow> tensor4 \<Rightarrow> tensor4 \<Rightarrow> error + (tensor4 \<times> tensor4 \<times> tensor4)" where
  "GatedPixelCNNLayer_forward L vstack_input hstack_input =
     (let h = dH vstack_input; w = dW vstack_input in
      bindE (conv2d_forward (vstack_1xN L) vstack_input) (\<lambda>v1.
      bindE (conv2d_forward (vstack_Nx1 L) v1) (\<lambda>v2.
      let vstack = crop_rows v2 h in
      bindE (conv2d_forward (link L) vstack) (\<lambda>lnk.
      bindE (conv2d_forward (vstack_1x1 L) vstack_input) (\<lambda>sc.
      bindE (iadd vstack sc) (\<lambda>vstack.
      bindE (GatedActivation_forward vstack) (\<lambda>vstack.
      bindE (conv2d_forward (hstack_1xN L) hstack_input) (\<lambda>h1.
      bindE (tadd lnk (crop_cols h1 w)) (\<lambda>hstack.
      bindE (GatedActivation_forward hstack) (\<lambda>hstack.
      bindE (conv2d_forward (hstack_skip L) hstack) (\<lambda>skip.
      bindE (conv2d_forward (hstack_residual L) hstack) (\<lambda>hstack.
      bindE (if \<not> is_causal L then iadd hstack hstack_input else Inr hstack) (\<lambda>hstack.
      Inr (vstack, hstack, skip))))))))))))))"

text \<open>
  The values the forward pass computes when no operation raises, as plain tensor
  expressions: the cropped output of the two vertical convolutions, the link term,
  the vertical stack before gating, and the horizontal stack as a function of the
  link term and \<open>hstack_input\<close>.
\<close>

definition gate_output :: "tensor4 \<Rightarrow> tensor4" where
  "gate_output x =
     broadcast2 (*) (tmap tanh (slice_channels x 0 (dC x div 2)))
                    (tmap sigmoid (slice_channels x (dC x div 2) (dC x)))"

definition vstack_conv :: "layer \<Rightarrow> tensor4 \<Rightarrow> tensor4" where
  "vstack_conv L v =
     crop_rows (conv2d_output (vstack_Nx1 L) (conv2d_output (vstack_1xN L) v)) (dH v)"

definition link_term :: "layer \<Rightarrow> tensor4 \<Rightarrow> tensor4" where
  "link_term L v = conv2d_output (link L) (vstack_conv L v)"

definition vstack_pregate :: "layer \<Rightarrow> tensor4 \<Rightarrow> tensor4" where
  "vstack_pregate L v = broadcast2 (+) (vstack_conv L v) (conv2d_output (vstack_1x1 L) v)"

definition hstack_pregate :: "layer \<Rightarrow> tensor4 \<Rightarrow> tensor4 \<Rightarrow> nat \<Rightarrow> tensor4" where
  "hstack_pregate L lnk h w =
     broadcast2 (+) lnk (crop_cols (conv2d_output (hstack_1xN L) h) w)"

definition hstack_gated :: "layer \<Rightarrow> tensor4 \<Rightarrow> tensor4 \<Rightarrow> nat \<Rightarrow> tensor4" where
  "hstack_gated L lnk h w = gate_output (hstack_pregate L lnk h w)"

definition skip_from_link :: "layer \<Rightarrow> tensor4 \<Rightarrow> tensor4 \<Rightarrow> nat \<Rightarrow> tensor4" where
  "skip_from_link L lnk h w = conv2d_output (hstack_skip L) (hstack_gated L lnk h w)"

definition hstack_from_link :: "layer \<Rightarrow> tensor4 \<Rightarrow> tensor4 \<Rightarrow> nat \<Rightarrow> tensor4" where
  "hstack_from_link L lnk h w =
     (let r = conv2d_output (hstack_residual L) (hstack_gated L lnk h w)
      in if \<not> is_causal L then broadcast2 (+) r h else r)"

text \<open>
  The 1x1 projection that maps every feature map to itself: weight 1 from each
  channel to the same channel, 0 elsewhere, and no bias.
\<close>

definition identity_projection :: "conv2d \<Rightarrow> bool" where
  "identity_projection cv =
     list_all (\<lambda>co. bias cv co = 0 \<and>
        list_all (\<lambda>ci. weight cv co ci 0 0 = (if ci = co then 1 else 0)) [0..<conv_in cv])
       [0..<conv_out cv]"

section \<open>GatedPixelCNN\<close>

datatype module = ReLU | Conv conv2d | Sigmoid

fun module_forward :: "module \<Rightarrow> tensor4 \<Rightarrow> error + tensor4" where
  "module_forward ReLU x = Inr (tmap relu x)"
| "module_forward (Conv cv) x = conv2d_forward cv x"
| "module_forward Sigmoid x = Inr (tmap sigmoid x)"

fun Sequential_forward :: "module list \<Rightarrow> tensor4 \<Rightarrow> error + tensor4" where
  "Sequential_forward [] x = Inr x"
| "Sequential_forward (m # ms) x = bindE (module_forward m x) (Sequential_forward ms)"

record model_params =
  p_input :: layer_params
  p_gated :: "nat \<Rightarrow> layer_params"
  p_head1 :: conv_params
  p_head2 :: conv_params

record gated_pixel_cnn =
  out_dim :: nat
  input_layer :: layer
  gated_layers :: "layer list"
  head :: "module list"

text \<open>A list comprehension whose element expression may raise.\<close>

fun mapE :: "('a \<Rightarrow> error + 'b) \<Rightarrow> 'a list \<Rightarrow> error + 'b list" where
  "mapE f [] = Inr []"
| "mapE f (x # xs) = bindE (f x) (\<lambda>y. bindE (mapE f xs) (\<lambda>ys. Inr (y # ys)))"

definition GatedPixelCNN_init ::
    "model_params \<Rightarrow> nat \<Rightarrow> nat \<Rightarrow> nat \<Rightarrow> nat \<Rightarrow> nat \<Rightarrow> error + gated_pixel_cnn" where
  "GatedPixelCNN_init prm in_ch odim n_gated gated_channels head_channels =
     bindE (GatedPixelCNNLayer_init (p_input prm) in_ch gated_channels 7 True) (\<lambda>inp.
     bindE (mapE (\<lambda>i. GatedPixelCNNLayer_init (p_gated prm i) gated_channels gated_channels 3 False)
              [0..<n_gated]) (\<lambda>gl.
     bindE (Conv2d (p_head1 prm) gated_channels head_channels (1, 1) (0, 0)) (\<lambda>c1.
     bindE (Conv2d (p_head2 prm) head_channels (odim * in_ch) (1, 1) (0, 0)) (\<lambda>c2.
     Inr \<lparr>out_dim = odim, input_layer = inp, gated_layers = gl,
          head = [ReLU, Conv c1, ReLU, Conv c2, Sigmoid]\<rparr>))))"

text \<open>A five-dimensional tensor, the result of \<^verbatim>\<open>view((n, out_dim, c, h, w))\<close>.\<close>

record tensor5 =
  e0 :: nat
  e1 :: nat
  e2 :: nat
  e3 :: nat
  e4 :: nat
  elem5 :: "nat \<Rightarrow> nat \<Rightarrow> nat \<Rightarrow> nat \<Rightarrow> nat \<Rightarrow> real"

text \<open>The entry at position \<open>k\<close> of the row-major (contiguous) layout.\<close>

definition flat_elem :: "tensor4 \<Rightarrow> nat \<Rightarrow> real" where
  "flat_elem y k =
     elem y (k div (dC y * dH y * dW y)) ((k div (dH y * dW y)) mod dC y)
            ((k div dW y) mod dH y) (k mod dW y)"

definition view5 :: "tensor4 \<Rightarrow> nat \<times> nat \<times> nat \<times> nat \<times> nat \<Rightarrow> error + tensor5" where
  "view5 y s =
     (case s of (n, d, c, h, w) \<Rightarrow>
        if n * d * c * h * w \<noteq> dN y * dC y * dH y * dW y then Inl RuntimeError
        else Inr \<lparr>e0 = n, e1 = d, e2 = c, e3 = h, e4 = w,
                  elem5 = (\<lambda>a b c' i j.
                    flat_elem y ((((a * d + b) * c + c') * h + i) * w + j))\<rparr>)"

text \<open>The loop over the gated layers, threading the two stacks and the skip sum.\<close>

fun gated_loop ::
    "layer list \<Rightarrow> tensor4 \<Rightarrow> tensor4 \<Rightarrow> tensor4 \<Rightarrow> error + (tensor4 \<times> tensor4 \<times> tensor4)" where
  "gated_loop [] vstack hstack skip_connections = Inr (vstack, hstack, skip_connections)"
| "gated_loop (gated_layer # rest) vstack hstack skip_connections =
     bindE (GatedPixelCNNLayer_forward gated_layer vstack hstack) (\<lambda>(vstack', hstack', skip).
     bindE (iadd skip_connections skip) (\<lambda>skip_connections'.
     gated_loop rest vstack' hstack' skip_connections'))"

definition GatedPixelCNN_forward :: "gated_pixel_cnn \<Rightarrow> tensor4 \<Rightarrow> error + tensor5" where
  "GatedPixelCNN_forward M x =
     (let n = dN x; c = dC x; h = dH x; w = dW x in
      bindE (GatedPixelCNNLayer_forward (input_layer M) x x) (\<lambda>(vstack, hstack, skip_connections).
      bindE (gated_loop (gated_layers M) vstack hstack skip_connections)
        (\<lambda>(vstack, hstack, skip_connections).
      bindE (Sequential_forward (head M) skip_connections) (\<lambda>y.
      view5 y (n, out_dim M, c, h, w)))))"

subsection \<open>Sampling\<close>

text \<open>
  The argument of \<^verbatim>\<open>sample\<close> is \<^verbatim>\<open>None\<close> or a canvas. The local names of a call are
  a map from names to values; reading a name that has no value raises.
\<close>

datatype pyval = PyNone | PyTensor tensor4

text \<open>
  The integer attributes of the model object: \<^verbatim>\<open>__init__\<close> assigns \<^verbatim>\<open>_out_dim\<close>,
  \<^verbatim>\<open>_input\<close>, \<^verbatim>\<open>_gated_layers\<close> and \<^verbatim>\<open>_head\<close>, of which only the first is a number.
\<close>

definition getattr_int :: "gated_pixel_cnn \<Rightarrow> string \<Rightarrow> error + nat" where
  "getattr_int M name =
     (if name = ''_out_dim'' then Inr (out_dim M)
      else if name \<in> {''_input'', ''_gated_layers'', ''_head''} then Inl TypeError
      else Inl AttributeError)"

text \<open>
  \<^verbatim>\<open>Bernoulli(probs=p).sample()\<close>: the random source is a sequence of uniform draws
  from the unit interval, read at a running position.
\<close>

definition bernoulli_sample :: "(nat \<Rightarrow> real) \<Rightarrow> nat \<Rightarrow> real \<Rightarrow> real" where
  "bernoulli_sample rng k p = (if rng k < p then 1 else 0)"

text \<open>The assignment \<^verbatim>\<open>x[:, channel, row, column] = vals\<close>.\<close>

definition set_pixel :: "tensor4 \<Rightarrow> nat \<Rightarrow> nat \<Rightarrow> nat \<Rightarrow> (nat \<Rightarrow> real) \<Rightarrow> tensor4" where
  "set_pixel x channel row column vals =
     x\<lparr>elem := (\<lambda>n c i j. if c = channel \<and> i = row \<and> j = column then vals n
                          else elem x n c i j)\<rparr>"

text \<open>
  The body of the innermost loop. \<^verbatim>\<open>squeeze(dim=1)\<close> removes the second axis only
  when \<open>out_dim\<close> is 1; otherwise the indexed value keeps an extra axis and the
  assignment back into the canvas raises. Indexing outside the extents raises.
\<close>

definition sample_step ::
    "gated_pixel_cnn \<Rightarrow> (nat \<Rightarrow> real) \<Rightarrow> tensor4 \<times> nat \<Rightarrow> nat \<times> nat \<times> nat \<Rightarrow> error + (tensor4 \<times> nat)" where
  "sample_step M rng st pos =
     (case st of (conditioned_on, k) \<Rightarrow> case pos of (row, column, channel) \<Rightarrow>
        bindE (GatedPixelCNN_forward M conditioned_on) (\<lambda>out5.
        if e1 out5 \<noteq> 1 then Inl RuntimeError
        else if \<not> (channel < e2 out5 \<and> row < e3 out5 \<and> column < e4 out5) then Inl IndexError
        else
          let out = (\<lambda>n. elem5 out5 n 0 channel row column);
              smp = (\<lambda>n. bernoulli_sample rng (k + n) (out n));
              new = (\<lambda>n. if elem conditioned_on n channel row column < 0 then smp n
                         else elem conditioned_on n channel row column)
          in Inr (set_pixel conditioned_on channel row column new, k + dN conditioned_on)))"

fun sample_loop ::
    "gated_pixel_cnn \<Rightarrow> (nat \<Rightarrow> real) \<Rightarrow> (nat \<times> nat \<times> nat) list \<Rightarrow> tensor4 \<times> nat \<Rightarrow> error + (tensor4 \<times> nat)" where
  "sample_loop M rng [] st = Inr st"
| "sample_loop M rng (pos # rest) st = bindE (sample_step M rng st pos) (sample_loop M rng rest)"

text \<open>The positions the three nested \<^verbatim>\<open>for\<close> statements visit, in order.\<close>

definition raster :: "(nat \<times> nat \<times> nat) list" where
  "raster = concat (map (\<lambda>row. concat (map (\<lambda>column. map (\<lambda>channel. (row, column, channel)) [0..<1])
                                          [0..<28])) [0..<28])"

text \<open>
  \<^verbatim>\<open>sample(self, condition_on=None)\<close>. The parameter is bound under the name
  \<open>condition_on\<close>; the body reads and assigns \<open>conditioned_on\<close>, which is therefore a
  local name of the function with no value when it is first read. In the branch for
  \<^verbatim>\<open>None\<close> the canvas would be two-dimensional, which the forward pass cannot unpack
  into four extents.
\<close>

definition GatedPixelCNN_sample ::
    "gated_pixel_cnn \<Rightarrow> (nat \<Rightarrow> real) \<Rightarrow> pyval \<Rightarrow> error + tensor4" where
  "GatedPixelCNN_sample M rng condition_on =
     (let locals = [''condition_on'' \<mapsto> condition_on] in
      case locals ''conditioned_on'' of
        None \<Rightarrow> Inl UnboundLocalError
      | Some v \<Rightarrow>
          bindE (case v of
                   PyNone \<Rightarrow> bindE (getattr_int M ''_input_dim'') (\<lambda>d. Inl ValueError)
                 | PyTensor t \<Rightarrow> Inr t) (\<lambda>conditioned_on.
          bindE (sample_loop M rng raster (conditioned_on, 0)) (\<lambda>(canvas, k). Inr canvas)))"

section \<open>Concrete parameters and inputs\<close>

text \<open>
  Parameters used to run the definitions on concrete inputs: a convolution whose
  weights are all 1 with no bias, a 1x1 identity projection, and a tensor given by
  its extents and an entry function.
\<close>

definition unit_conv :: conv_params where
  "unit_conv = ((\<lambda>co ci ki kj. 1), (\<lambda>co. 0))"

definition identity_conv :: conv_params where
  "identity_conv = ((\<lambda>co ci ki kj. if ci = co then 1 else 0), (\<lambda>co. 0))"

definition unit_layer_params :: layer_params where
  "unit_layer_params =
     \<lparr>p_vstack_1xN = unit_conv, p_vstack_Nx1 = unit_conv, p_vstack_1x1 = unit_conv,
      p_link = unit_conv, p_hstack_1xN = unit_conv, p_hstack_residual = identity_conv,
      p_hstack_skip = unit_conv\<rparr>"

definition unit_model_params :: model_params where
  "unit_model_params =
     \<lparr>p_input = unit_layer_params, p_gated = (\<lambda>i. unit_layer_params),
      p_head1 = unit_conv, p_head2 = unit_conv\<rparr>"

definition mk_tensor :: "nat \<Rightarrow> nat \<Rightarrow> nat \<Rightarrow> nat \<Rightarrow> (nat \<Rightarrow> nat \<Rightarrow> nat \<Rightarrow> nat \<Rightarrow> real) \<Rightarrow> tensor4" where
  "mk_tensor n c h w f = \<lparr>dN = n, dC = c, dH = h, dW = w, elem = f\<rparr>"

section \<open>Basic facts about the tensor operations\<close>

lemma bindE_Inr [simp]: "bindE (Inr x) f = f x" by (simp add: bindE_def)
lemma bindE_Inl [simp]: "bindE (Inl e) f = Inl e" by (simp add: bindE_def)

lemma sigmoid_pos: "0 < sigmoid x"
  by (simp add: sigmoid_def add_pos_pos)

lemma sigmoid_lt_1: "sigmoid x < 1"
  by (simp add: sigmoid_def add_pos_pos)

lemma bidx_in_range [simp]: "i < d \<Longrightarrow> bidx d i = i"
  by (auto simp: bidx_def)

lemma bcompat_refl [simp]: "bcompat a a" by (simp add: bcompat_def)
lemma bdim_same [simp]: "bdim a a = a" by (simp add: bdim_def)

lemma binop_same_shape:
  "shape x = shape y \<Longrightarrow> binop f x y = Inr (broadcast2 f x y)"
  by (simp add: binop_def shape_def)

lemma shape_broadcast2_same:
  "shape x = shape y \<Longrightarrow> shape (broadcast2 f x y) = shape x"
  by (simp add: shape_def broadcast2_def)

lemma elem_broadcast2_same:
  "shape x = shape y \<Longrightarrow> n < dN x \<Longrightarrow> c < dC x \<Longrightarrow> i < dH x \<Longrightarrow> j < dW x \<Longrightarrow>
   elem (broadcast2 f x y) n c i j = f (elem x n c i j) (elem y n c i j)"
  by (simp add: shape_def broadcast2_def)

lemma iadd_same_shape:
  "shape x = shape y \<Longrightarrow> iadd x y = Inr (broadcast2 (+) x y)"
  by (simp add: iadd_def binop_same_shape shape_broadcast2_same)

lemma even_half: "even (c::nat) \<Longrightarrow> c - c div 2 = c div 2"
  by (auto elim!: evenE)

lemma GatedActivation_forward_even:
  assumes "even (dC x)"
  shows "GatedActivation_forward x = Inr (gate_output x)"
proof -
  have "shape (tmap tanh (slice_channels x 0 (dC x div 2))) =
        shape (tmap sigmoid (slice_channels x (dC x div 2) (dC x)))"
    using assms by (simp add: shape_def tmap_def slice_channels_def even_half)
  then show ?thesis
    using assms
    by (simp add: GatedActivation_forward_def Let_def tmul_def gate_output_def binop_same_shape)
qed

lemma GatedActivation_forward_odd:
  "odd (dC x) \<Longrightarrow> GatedActivation_forward x = Inl AssertionError"
  by (simp add: GatedActivation_forward_def Let_def odd_iff_mod_2_eq_one)

lemma shape_gate_output:
  "even (dC x) \<Longrightarrow> shape (gate_output x) = (dN x, dC x div 2, dH x, dW x)"
  by (simp add: gate_output_def shape_def broadcast2_def tmap_def slice_channels_def even_half)

lemma elem_gate_output:
  "even (dC x) \<Longrightarrow> n < dN x \<Longrightarrow> c < dC x div 2 \<Longrightarrow> i < dH x \<Longrightarrow> j < dW x \<Longrightarrow>
   elem (gate_output x) n c i j =
     tanh (elem x n c i j) * sigmoid (elem x n (dC x div 2 + c) i j)"
  by (auto simp add: gate_output_def broadcast2_def tmap_def slice_channels_def min_def
      elim!: evenE)

lemma Conv2d_ok:
  "0 \<le> fst ks \<Longrightarrow> 0 \<le> snd ks \<Longrightarrow>
   Conv2d prm cin cout ks pad =
     Inr \<lparr>conv_in = cin, conv_out = cout,
                kernel_h = nat (fst ks), kernel_w = nat (snd ks),
                padding_h = nat (fst pad), padding_w = nat (snd pad),
                weight = fst prm, bias = snd prm\<rparr>"
  by (simp add: Conv2d_def)

lemma init_even:
  "even k \<Longrightarrow> GatedPixelCNNLayer_init prm cin cout k causal = Inl AssertionError"
  by (simp add: GatedPixelCNNLayer_init_def even_iff_mod_2_eq_zero)

lemma init_odd_neg:
  "odd k \<Longrightarrow> k < 0 \<Longrightarrow> GatedPixelCNNLayer_init prm cin cout k causal = Inl RuntimeError"
  by (simp add: GatedPixelCNNLayer_init_def Conv2d_def odd_iff_mod_2_eq_one)

lemma init_odd_pos:
  assumes "odd k" "0 < k"
  shows "GatedPixelCNNLayer_init prm cin cout k causal =
    Inr \<lparr>in_channels = cin, out_channels = cout, kernel_size = k,
         padding = (k - 1) div 2, is_causal = causal,
         vstack_1xN = \<lparr>conv_in = cin, conv_out = cout, kernel_h = 1, kernel_w = nat k,
            padding_h = 0, padding_w = nat ((k - 1) div 2),
            weight = fst (p_vstack_1xN prm), bias = snd (p_vstack_1xN prm)\<rparr>,
         vstack_Nx1 = \<lparr>conv_in = cout, conv_out = 2 * cout,
            kernel_h = nat (k div 2 + 1), kernel_w = 1,
            padding_h = nat ((k - 1) div 2 + 1), padding_w = 0,
            weight = fst (p_vstack_Nx1 prm), bias = snd (p_vstack_Nx1 prm)\<rparr>,
         vstack_1x1 = \<lparr>conv_in = cin, conv_out = 2 * cout, kernel_h = 1, kernel_w = 1,
            padding_h = 0, padding_w = 0,
            weight = fst (p_vstack_1x1 prm), bias = snd (p_vstack_1x1 prm)\<rparr>,
         link = \<lparr>conv_in = 2 * cout, conv_out = 2 * cout, kernel_h = 1, kernel_w = 1,
            padding_h = 0, padding_w = 0,
            weight = fst (p_link prm), bias = snd (p_link prm)\<rparr>,
         hstack_1xN = \<lparr>conv_in = cin, conv_out = 2 * cout,
            kernel_h = 1, kernel_w = nat (k div 2 + 1),
            padding_h = 0, padding_w = nat ((k - 1) div 2 + (if causal then 1 else 0)),
            weight = fst (p_hstack_1xN prm), bias = snd (p_hstack_1xN prm)\<rparr>,
         hstack_residual = \<lparr>conv_in = cout, conv_out = cout, kernel_h = 1, kernel_w = 1,
            padding_h = 0, padding_w = 0,
            weight = fst (p_hstack_residual prm), bias = snd (p_hstack_residual prm)\<rparr>,
         hstack_skip = \<lparr>conv_in = cout, conv_out = cout, kernel_h = 1, kernel_w = 1,
            padding_h = 0, padding_w = 0,
            weight = fst (p_hstack_skip prm), bias = snd (p_hstack_skip prm)\<rparr>\<rparr>"
proof -
  have "k mod 2 = 1" using assms by (simp add: odd_iff_mod_2_eq_one)
  moreover have "0 \<le> k div 2 + 1" using assms by simp
  ultimately show ?thesis
    using assms by (simp add: GatedPixelCNNLayer_init_def Conv2d_ok Let_def)
qed

section \<open>Properties of GatedActivation and of the preconditions\<close>

text \<open>
  C7. For every feature map \<open>x\<close> with an even channel count \<open>C\<close>,
  \<open>GatedActivation.forward\<close> returns a feature map with \<open>C/2\<close> channels and the batch
  and spatial extents of \<open>x\<close>, whose entry at channel \<open>c\<close> is \<open>tanh\<close> of the entry of
  \<open>x\<close> at channel \<open>c\<close> times \<open>sigmoid\<close> of the entry of \<open>x\<close> at channel \<open>C/2 + c\<close>.
\<close>

theorem gated_activation_even:
  assumes "even (dC x)"
  shows "\<exists>y. GatedActivation_forward x = Inr y \<and>
           shape y = (dN x, dC x div 2, dH x, dW x) \<and>
           (\<forall>n<dN x. \<forall>c<dC x div 2. \<forall>i<dH x. \<forall>j<dW x.
              elem y n c i j = tanh (elem x n c i j) * sigmoid (elem x n (dC x div 2 + c) i j))"
  using assms
  by (simp add: GatedActivation_forward_even shape_gate_output elem_gate_output)

theorem gated_activation_even_witness:
  "even (dC \<lparr>dN = 1, dC = 2, dH = 1, dW = 1, elem = (\<lambda>n c i j. real c)\<rparr>) \<and>
   (\<exists>y. GatedActivation_forward \<lparr>dN = 1, dC = 2, dH = 1, dW = 1, elem = (\<lambda>n c i j. real c)\<rparr> = Inr y \<and>
        shape y = (1, 1, 1, 1) \<and> elem y 0 0 0 0 = tanh 0 * sigmoid 1)"
  using gated_activation_even [of "\<lparr>dN = 1, dC = 2, dH = 1, dW = 1, elem = (\<lambda>n c i j. real c)\<rparr>"]
  by simp

text \<open>
  C10. \<open>GatedActivation.forward\<close> fails its assertion exactly when the channel count
  of its input is odd, and the construction of a \<open>GatedPixelCNNLayer\<close> fails its
  assertion exactly when \<open>kernel_size\<close> is even. A failed call returns the error and
  no tensor or layer.
\<close>

theorem precondition_failures:
  "(GatedActivation_forward x = Inl AssertionError \<longleftrightarrow> odd (dC x)) \<and>
   (GatedPixelCNNLayer_init prm cin cout k causal = Inl AssertionError \<longleftrightarrow> even k)"
proof -
  have a: "GatedActivation_forward x = Inl AssertionError \<longleftrightarrow> odd (dC x)"
    by (cases "even (dC x)") (simp_all add: GatedActivation_forward_even GatedActivation_forward_odd)
  have b: "GatedPixelCNNLayer_init prm cin cout k causal = Inl AssertionError \<longleftrightarrow> even k"
  proof (cases "even k")
    case True then show ?thesis by (simp add: init_even)
  next
    case False
    then have "k < 0 \<or> 0 < k" by (cases "k = 0") auto
    with False show ?thesis by (auto simp: init_odd_neg init_odd_pos)
  qed
  show ?thesis using a b by simp
qed

section \<open>Sampling\<close>

text \<open>
  C6. Every call of \<open>sample\<close> raises a name-resolution error, whatever its argument,
  the model and the random source: the body reads the local name \<open>conditioned_on\<close>
  before anything has been assigned to it, so no canvas is returned.
\<close>

theorem sample_always_raises:
  "GatedPixelCNN_sample M rng arg = Inl UnboundLocalError"
  by (simp add: GatedPixelCNN_sample_def)

text \<open>
  C4. The claim is that \<open>sample\<close> returns a canvas that keeps every fixed entry and
  holds 0 or 1 at every entry that was -1. On a canvas with fixed evidence (0 in the
  first column, 1 in the second) and -1 elsewhere, the code raises instead and
  returns no canvas.
\<close>

theorem sample_with_evidence_raises:
  "GatedPixelCNN_sample M rng
     (PyTensor \<lparr>dN = 1, dC = 1, dH = 28, dW = 28,
                elem = (\<lambda>n c i j. if j = 0 then 0 else if j = 1 then 1 else - 1)\<rparr>)
   = Inl UnboundLocalError"
  by (simp add: GatedPixelCNN_sample_def)

text \<open>
  C5. The claim is that, from the canvas of shape (1,1,28,28) with every entry -1,
  \<open>sample\<close> visits the grid in raster order and returns a canvas with every entry in
  \<open>{0, 1}\<close>. On that canvas the code raises before the first position is visited.
\<close>

theorem sample_unknown_canvas_raises:
  "GatedPixelCNN_sample M rng
     (PyTensor \<lparr>dN = 1, dC = 1, dH = 28, dW = 28, elem = (\<lambda>n c i j. - 1)\<rparr>)
   = Inl UnboundLocalError"
  by (simp add: GatedPixelCNN_sample_def)

section \<open>The layer's forward pass when no operation raises\<close>

lemma conv2d_forward_ok:
  "dC x = conv_in cv \<Longrightarrow> kernel_h cv \<le> dH x + 2 * padding_h cv \<Longrightarrow>
   kernel_w cv \<le> dW x + 2 * padding_w cv \<Longrightarrow>
   conv2d_forward cv x = Inr (conv2d_output cv x)"
  by (simp add: conv2d_forward_def)

lemma dims_conv2d_output [simp]:
  "dN (conv2d_output cv x) = dN x"
  "dC (conv2d_output cv x) = conv_out cv"
  "dH (conv2d_output cv x) = dH x + 2 * padding_h cv - kernel_h cv + 1"
  "dW (conv2d_output cv x) = dW x + 2 * padding_w cv - kernel_w cv + 1"
  "elem (conv2d_output cv x) = conv_at cv x"
  by (simp_all add: conv2d_output_def)

lemma dims_crop [simp]:
  "dN (crop_rows x h) = dN x" "dC (crop_rows x h) = dC x"
  "dH (crop_rows x h) = min h (dH x)" "dW (crop_rows x h) = dW x"
  "elem (crop_rows x h) = elem x"
  "dN (crop_cols x w) = dN x" "dC (crop_cols x w) = dC x"
  "dH (crop_cols x w) = dH x" "dW (crop_cols x w) = min w (dW x)"
  "elem (crop_cols x w) = elem x"
  by (simp_all add: crop_rows_def crop_cols_def)

lemma dims_broadcast2 [simp]:
  "dN (broadcast2 f x y) = bdim (dN x) (dN y)"
  "dC (broadcast2 f x y) = bdim (dC x) (dC y)"
  "dH (broadcast2 f x y) = bdim (dH x) (dH y)"
  "dW (broadcast2 f x y) = bdim (dW x) (dW y)"
  by (simp_all add: broadcast2_def)

lemma dims_gate_output [simp]:
  "dN (gate_output x) = dN x"
  "even (dC x) \<Longrightarrow> dC (gate_output x) = dC x div 2"
  "dH (gate_output x) = dH x"
  "dW (gate_output x) = dW x"
  by (simp_all add: gate_output_def tmap_def slice_channels_def even_half)

lemma init_Inr_D:
  assumes "GatedPixelCNNLayer_init prm cin cout k causal = Inr L"
  shows "odd k \<and> 0 < k"
proof -
  have "odd k" using assms by (cases "even k") (simp_all add: init_even)
  moreover have "0 < k"
  proof (rule ccontr)
    assume "\<not> 0 < k"
    with \<open>odd k\<close> have "k < 0" by (cases "k = 0") auto
    with \<open>odd k\<close> assms show False by (simp add: init_odd_neg)
  qed
  ultimately show ?thesis by simp
qed

text \<open>The fields of a constructed layer, with the padding \<open>p\<close> as a natural number.\<close>

lemma init_fields:
  assumes "GatedPixelCNNLayer_init prm cin cout k causal = Inr L"
  shows "\<exists>p. k = 2 * int p + 1 \<and>
    in_channels L = cin \<and> out_channels L = cout \<and> is_causal L = causal \<and>
    conv_in (vstack_1xN L) = cin \<and> conv_out (vstack_1xN L) = cout \<and>
    kernel_h (vstack_1xN L) = 1 \<and> kernel_w (vstack_1xN L) = 2 * p + 1 \<and>
    padding_h (vstack_1xN L) = 0 \<and> padding_w (vstack_1xN L) = p \<and>
    conv_in (vstack_Nx1 L) = cout \<and> conv_out (vstack_Nx1 L) = 2 * cout \<and>
    kernel_h (vstack_Nx1 L) = p + 1 \<and> kernel_w (vstack_Nx1 L) = 1 \<and>
    padding_h (vstack_Nx1 L) = p + 1 \<and> padding_w (vstack_Nx1 L) = 0 \<and>
    conv_in (vstack_1x1 L) = cin \<and> conv_out (vstack_1x1 L) = 2 * cout \<and>
    kernel_h (vstack_1x1 L) = 1 \<and> kernel_w (vstack_1x1 L) = 1 \<and>
    padding_h (vstack_1x1 L) = 0 \<and> padding_w (vstack_1x1 L) = 0 \<and>
    conv_in (link L) = 2 * cout \<and> conv_out (link L) = 2 * cout \<and>
    kernel_h (link L) = 1 \<and> kernel_w (link L) = 1 \<and>
    padding_h (link L) = 0 \<and> padding_w (link L) = 0 \<and>
    conv_in (hstack_1xN L) = cin \<and> conv_out (hstack_1xN L) = 2 * cout \<and>
    kernel_h (hstack_1xN L) = 1 \<and> kernel_w (hstack_1xN L) = p + 1 \<and>
    padding_h (hstack_1xN L) = 0 \<and>
    padding_w (hstack_1xN L) = p + (if causal then 1 else 0) \<and>
    conv_in (hstack_residual L) = cout \<and> conv_out (hstack_residual L) = cout \<and>
    kernel_h (hstack_residual L) = 1 \<and> kernel_w (hstack_residual L) = 1 \<and>
    padding_h (hstack_residual L) = 0 \<and> padding_w (hstack_residual L) = 0 \<and>
    conv_in (hstack_skip L) = cout \<and> conv_out (hstack_skip L) = cout \<and>
    kernel_h (hstack_skip L) = 1 \<and> kernel_w (hstack_skip L) = 1 \<and>
    padding_h (hstack_skip L) = 0 \<and> padding_w (hstack_skip L) = 0"
proof -
  from init_Inr_D [OF assms] have k: "odd k" "0 < k" by simp_all
  from k obtain b where b: "k = 2 * b + 1" by (auto elim: oddE)
  with k have b0: "0 \<le> b" by simp
  define p where "p = nat b"
  have p: "k = 2 * int p + 1" using b b0 by (simp add: p_def)
  have d: "(2 * int p + 1) div 2 = int p" "nat (2 * int p + 1) = 2 * p + 1"
    "nat (int p + 1) = p + 1"
    by (simp_all add: nat_add_distrib nat_mult_distrib)
  have L: "GatedPixelCNNLayer_init prm cin cout k causal = Inr L"
    by (rule assms)
  show ?thesis
    apply (rule exI [of _ p])
    using L unfolding init_odd_pos [OF k]
    by (auto simp add: p d)
qed


lemma iadd_channel_broadcast:
  "dN x = dN y \<Longrightarrow> dH x = dH y \<Longrightarrow> dW x = dW y \<Longrightarrow> dC y = dC x \<or> dC y = 1 \<Longrightarrow>
   iadd x y = Inr (broadcast2 (+) x y)"
  by (auto simp add: iadd_def binop_def bcompat_def shape_def bdim_def)

lemma tadd_same_dims:
  "dN x = dN y \<Longrightarrow> dC x = dC y \<Longrightarrow> dH x = dH y \<Longrightarrow> dW x = dW y \<Longrightarrow>
   tadd x y = Inr (broadcast2 (+) x y)"
  by (simp add: tadd_def binop_def)

lemma layer_forward_ok:
  assumes init: "GatedPixelCNNLayer_init prm cin cout k causal = Inr L"
    and v: "shape v = (N, cin, H, W)" and h: "shape h = (N, cin, H, W)"
    and pos: "0 < H" "0 < W"
    and res: "causal \<or> cin = cout \<or> cin = 1"
  shows "GatedPixelCNNLayer_forward L v h =
     Inr (gate_output (vstack_pregate L v),
          hstack_from_link L (link_term L v) h W,
          skip_from_link L (link_term L v) h W)"
proof -
  from init_fields [OF init] obtain p where f:
    "in_channels L = cin" "out_channels L = cout" "is_causal L = causal"
    "conv_in (vstack_1xN L) = cin" "conv_out (vstack_1xN L) = cout"
    "kernel_h (vstack_1xN L) = 1" "kernel_w (vstack_1xN L) = 2 * p + 1"
    "padding_h (vstack_1xN L) = 0" "padding_w (vstack_1xN L) = p"
    "conv_in (vstack_Nx1 L) = cout" "conv_out (vstack_Nx1 L) = 2 * cout"
    "kernel_h (vstack_Nx1 L) = p + 1" "kernel_w (vstack_Nx1 L) = 1"
    "padding_h (vstack_Nx1 L) = p + 1" "padding_w (vstack_Nx1 L) = 0"
    "conv_in (vstack_1x1 L) = cin" "conv_out (vstack_1x1 L) = 2 * cout"
    "kernel_h (vstack_1x1 L) = 1" "kernel_w (vstack_1x1 L) = 1"
    "padding_h (vstack_1x1 L) = 0" "padding_w (vstack_1x1 L) = 0"
    "conv_in (link L) = 2 * cout" "conv_out (link L) = 2 * cout"
    "kernel_h (link L) = 1" "kernel_w (link L) = 1"
    "padding_h (link L) = 0" "padding_w (link L) = 0"
    "conv_in (hstack_1xN L) = cin" "conv_out (hstack_1xN L) = 2 * cout"
    "kernel_h (hstack_1xN L) = 1" "kernel_w (hstack_1xN L) = p + 1"
    "padding_h (hstack_1xN L) = 0"
    "padding_w (hstack_1xN L) = p + (if causal then 1 else 0)"
    "conv_in (hstack_residual L) = cout" "conv_out (hstack_residual L) = cout"
    "kernel_h (hstack_residual L) = 1" "kernel_w (hstack_residual L) = 1"
    "padding_h (hstack_residual L) = 0" "padding_w (hstack_residual L) = 0"
    "conv_in (hstack_skip L) = cout" "conv_out (hstack_skip L) = cout"
    "kernel_h (hstack_skip L) = 1" "kernel_w (hstack_skip L) = 1"
    "padding_h (hstack_skip L) = 0" "padding_w (hstack_skip L) = 0"
    by blast
  have dv: "dN v = N" "dC v = cin" "dH v = H" "dW v = W"
    using v by (simp_all add: shape_def)
  have dh: "dN h = N" "dC h = cin" "dH h = H" "dW h = W"
    using h by (simp_all add: shape_def)
  let ?a = "conv2d_output (vstack_1xN L) v"
  let ?b = "conv2d_output (vstack_Nx1 L) ?a"
  have s1: "conv2d_forward (vstack_1xN L) v = Inr ?a"
    using pos by (intro conv2d_forward_ok) (simp_all add: f dv)
  have s2: "conv2d_forward (vstack_Nx1 L) ?a = Inr ?b"
    using pos by (intro conv2d_forward_ok) (simp_all add: f dv)
  have vc: "crop_rows ?b H = vstack_conv L v"
    by (simp add: vstack_conv_def dv)
  have dvc: "dN (vstack_conv L v) = N" "dC (vstack_conv L v) = 2 * cout"
    "dH (vstack_conv L v) = H" "dW (vstack_conv L v) = W"
    using pos by (simp_all add: vstack_conv_def f dv)
  have s3: "conv2d_forward (link L) (vstack_conv L v) = Inr (link_term L v)"
    unfolding link_term_def using pos by (intro conv2d_forward_ok) (simp_all add: f dvc)
  have dl: "dN (link_term L v) = N" "dC (link_term L v) = 2 * cout"
    "dH (link_term L v) = H" "dW (link_term L v) = W"
    using pos by (simp_all add: link_term_def f dvc)
  let ?sc = "conv2d_output (vstack_1x1 L) v"
  have s4: "conv2d_forward (vstack_1x1 L) v = Inr ?sc"
    using pos by (intro conv2d_forward_ok) (simp_all add: f dv)
  have s5: "iadd (vstack_conv L v) ?sc = Inr (vstack_pregate L v)"
    unfolding vstack_pregate_def using pos
    by (intro iadd_channel_broadcast) (simp_all add: f dv dvc)
  have dvp: "dC (vstack_pregate L v) = 2 * cout"
    by (simp add: vstack_pregate_def f dvc)
  have s6: "GatedActivation_forward (vstack_pregate L v) = Inr (gate_output (vstack_pregate L v))"
    by (rule GatedActivation_forward_even) (simp add: dvp)
  let ?h1 = "conv2d_output (hstack_1xN L) h"
  have s7: "conv2d_forward (hstack_1xN L) h = Inr ?h1"
    using pos by (intro conv2d_forward_ok) (simp_all add: f dh)
  have s8: "tadd (link_term L v) (crop_cols ?h1 W) = Inr (hstack_pregate L (link_term L v) h W)"
    unfolding hstack_pregate_def using pos
    by (intro tadd_same_dims) (simp_all add: f dh dl)
  have dhp: "dN (hstack_pregate L (link_term L v) h W) = N"
    "dC (hstack_pregate L (link_term L v) h W) = 2 * cout"
    "dH (hstack_pregate L (link_term L v) h W) = H"
    "dW (hstack_pregate L (link_term L v) h W) = W"
    using pos by (simp_all add: hstack_pregate_def dl f dh)
  have s9: "GatedActivation_forward (hstack_pregate L (link_term L v) h W) =
              Inr (hstack_gated L (link_term L v) h W)"
    unfolding hstack_gated_def by (rule GatedActivation_forward_even) (simp add: dhp)
  have dg: "dN (hstack_gated L (link_term L v) h W) = N"
    "dC (hstack_gated L (link_term L v) h W) = cout"
    "dH (hstack_gated L (link_term L v) h W) = H"
    "dW (hstack_gated L (link_term L v) h W) = W"
    by (simp_all add: hstack_gated_def dhp)
  have s10: "conv2d_forward (hstack_skip L) (hstack_gated L (link_term L v) h W) =
               Inr (skip_from_link L (link_term L v) h W)"
    unfolding skip_from_link_def using pos by (intro conv2d_forward_ok) (simp_all add: f dg)
  let ?r = "conv2d_output (hstack_residual L) (hstack_gated L (link_term L v) h W)"
  have s11: "conv2d_forward (hstack_residual L) (hstack_gated L (link_term L v) h W) = Inr ?r"
    using pos by (intro conv2d_forward_ok) (simp_all add: f dg)
  have s12: "(if \<not> is_causal L then iadd ?r h else Inr ?r) =
               Inr (hstack_from_link L (link_term L v) h W)"
  proof (cases causal)
    case True
    then show ?thesis by (simp add: hstack_from_link_def f)
  next
    case False
    with res have "cin = cout \<or> cin = 1" by simp
    then have "iadd ?r h = Inr (broadcast2 (+) ?r h)"
      using pos by (intro iadd_channel_broadcast) (auto simp add: f dg dh)
    with False show ?thesis by (simp add: hstack_from_link_def f Let_def)
  qed
  show ?thesis
    unfolding GatedPixelCNNLayer_forward_def Let_def dv
    by (simp only: s1 s2 vc s3 s4 s5 s6 s7 s8 s9 s10 s11 s12 bindE_Inr)
qed

section \<open>Shapes of the layer's outputs\<close>

lemma dims_mk_tensor [simp]:
  "dN (mk_tensor n c h w f) = n" "dC (mk_tensor n c h w f) = c"
  "dH (mk_tensor n c h w f) = h" "dW (mk_tensor n c h w f) = w"
  "elem (mk_tensor n c h w f) = f"
  "shape (mk_tensor n c h w f) = (n, c, h, w)"
  by (simp_all add: mk_tensor_def shape_def)

lemma layer_output_shapes:
  assumes init: "GatedPixelCNNLayer_init prm cin cout k causal = Inr L"
    and v: "shape v = (N, cin, H, W)" and h: "shape h = (N, cin, H, W)"
    and pos: "0 < H" "0 < W"
    and res: "causal \<or> cin = cout \<or> cin = 1"
  shows "shape (vstack_conv L v) = (N, 2 * cout, H, W)"
    and "shape (link_term L v) = (N, 2 * cout, H, W)"
    and "shape (vstack_pregate L v) = (N, 2 * cout, H, W)"
    and "shape (gate_output (vstack_pregate L v)) = (N, cout, H, W)"
    and "shape (hstack_pregate L (link_term L v) h W) = (N, 2 * cout, H, W)"
    and "shape (hstack_gated L (link_term L v) h W) = (N, cout, H, W)"
    and "shape (skip_from_link L (link_term L v) h W) = (N, cout, H, W)"
    and "shape (hstack_from_link L (link_term L v) h W) = (N, cout, H, W)"
proof -
  from init_fields [OF init] obtain p where f:
    "is_causal L = causal"
    "conv_out (vstack_1xN L) = cout"
    "kernel_h (vstack_1xN L) = 1" "kernel_w (vstack_1xN L) = 2 * p + 1"
    "padding_h (vstack_1xN L) = 0" "padding_w (vstack_1xN L) = p"
    "conv_out (vstack_Nx1 L) = 2 * cout"
    "kernel_h (vstack_Nx1 L) = p + 1" "kernel_w (vstack_Nx1 L) = 1"
    "padding_h (vstack_Nx1 L) = p + 1" "padding_w (vstack_Nx1 L) = 0"
    "conv_out (vstack_1x1 L) = 2 * cout"
    "kernel_h (vstack_1x1 L) = 1" "kernel_w (vstack_1x1 L) = 1"
    "padding_h (vstack_1x1 L) = 0" "padding_w (vstack_1x1 L) = 0"
    "conv_out (link L) = 2 * cout"
    "kernel_h (link L) = 1" "kernel_w (link L) = 1"
    "padding_h (link L) = 0" "padding_w (link L) = 0"
    "conv_out (hstack_1xN L) = 2 * cout"
    "kernel_h (hstack_1xN L) = 1" "kernel_w (hstack_1xN L) = p + 1"
    "padding_h (hstack_1xN L) = 0"
    "padding_w (hstack_1xN L) = p + (if causal then 1 else 0)"
    "conv_out (hstack_residual L) = cout"
    "kernel_h (hstack_residual L) = 1" "kernel_w (hstack_residual L) = 1"
    "padding_h (hstack_residual L) = 0" "padding_w (hstack_residual L) = 0"
    "conv_out (hstack_skip L) = cout"
    "kernel_h (hstack_skip L) = 1" "kernel_w (hstack_skip L) = 1"
    "padding_h (hstack_skip L) = 0" "padding_w (hstack_skip L) = 0"
    by blast
  have dv: "dN v = N" "dC v = cin" "dH v = H" "dW v = W"
    using v by (simp_all add: shape_def)
  have dh: "dN h = N" "dC h = cin" "dH h = H" "dW h = W"
    using h by (simp_all add: shape_def)
  show a: "shape (vstack_conv L v) = (N, 2 * cout, H, W)"
    using pos by (simp add: shape_def vstack_conv_def f dv)
  show b: "shape (link_term L v) = (N, 2 * cout, H, W)"
    using a pos by (simp add: shape_def link_term_def f)
  show c: "shape (vstack_pregate L v) = (N, 2 * cout, H, W)"
    using a pos by (simp add: shape_def vstack_pregate_def f dv)
  show "shape (gate_output (vstack_pregate L v)) = (N, cout, H, W)"
    using c by (simp add: shape_def)
  show d: "shape (hstack_pregate L (link_term L v) h W) = (N, 2 * cout, H, W)"
    using b pos by (simp add: shape_def hstack_pregate_def f dh)
  show e: "shape (hstack_gated L (link_term L v) h W) = (N, cout, H, W)"
    using d by (simp add: shape_def hstack_gated_def)
  show "shape (skip_from_link L (link_term L v) h W) = (N, cout, H, W)"
    using e pos by (simp add: shape_def skip_from_link_def f)
  show "shape (hstack_from_link L (link_term L v) h W) = (N, cout, H, W)"
    using e pos res by (auto simp add: shape_def hstack_from_link_def f dh Let_def bdim_def)
qed

text \<open>
  C2, as amended. For a layer constructed with an odd positive \<open>kernel_size\<close> that is
  causal, or has \<open>in_channels = out_channels\<close>, or has \<open>in_channels = 1\<close>, and for
  every pair of inputs of shape \<open>(N, in_channels, H, W)\<close> with \<open>H, W \<ge> 1\<close>, the
  forward pass returns three tensors of shape \<open>(N, out_channels, H, W)\<close>: the crops
  after the padded convolutions restore the spatial extent of the input.
\<close>

theorem layer_forward_shapes:
  assumes "odd k" and "0 < k"
    and "shape vstack_input = (N, cin, H, W)" and "shape hstack_input = (N, cin, H, W)"
    and "0 < H" and "0 < W"
    and "causal \<or> cin = cout \<or> cin = 1"
  shows "\<exists>L. GatedPixelCNNLayer_init prm cin cout k causal = Inr L \<and>
           (\<exists>vstack hstack skip.
              GatedPixelCNNLayer_forward L vstack_input hstack_input = Inr (vstack, hstack, skip) \<and>
              shape vstack = (N, cout, H, W) \<and> shape hstack = (N, cout, H, W) \<and>
              shape skip = (N, cout, H, W))"
proof -
  obtain L where L: "GatedPixelCNNLayer_init prm cin cout k causal = Inr L"
    using init_odd_pos [OF assms(1,2)] by blast
  show ?thesis
    using layer_forward_ok [OF L assms(3-7)] layer_output_shapes(4,7,8) [OF L assms(3-7)] L
    by simp
qed

theorem layer_forward_shapes_witness:
  "odd (3::int) \<and> (0::int) < 3 \<and>
   shape (mk_tensor 2 1 4 5 (\<lambda>n c i j. real (i + j))) = (2, 1, 4, 5) \<and>
   (0::nat) < 4 \<and> (0::nat) < 5 \<and> (False \<or> (1::nat) = 6 \<or> (1::nat) = 1) \<and>
   (\<exists>L. GatedPixelCNNLayer_init unit_layer_params 1 6 3 False = Inr L \<and>
      (\<exists>vstack hstack skip.
         GatedPixelCNNLayer_forward L (mk_tensor 2 1 4 5 (\<lambda>n c i j. real (i + j)))
           (mk_tensor 2 1 4 5 (\<lambda>n c i j. real (i + j))) = Inr (vstack, hstack, skip) \<and>
         shape vstack = (2, 6, 4, 5) \<and> shape hstack = (2, 6, 4, 5) \<and>
         shape skip = (2, 6, 4, 5)))"
  using layer_forward_shapes [of 3 "mk_tensor 2 1 4 5 (\<lambda>n c i j. real (i + j))" 2 1 4 5
      "mk_tensor 2 1 4 5 (\<lambda>n c i j. real (i + j))" False 6 unit_layer_params]
  by simp

text \<open>
  As stated for every layer, the claim fails: a layer that is not causal with
  \<open>in_channels = 2\<close> and \<open>out_channels = 3\<close> is constructed without error, and its
  forward pass raises at \<^verbatim>\<open>hstack += hstack_input\<close>, because a tensor with 2 channels
  cannot be added in place to one with 3.
\<close>

theorem layer_forward_shape_counterexample:
  "shape (mk_tensor 1 2 1 1 (\<lambda>n c i j. 0)) = (1, 2, 1, 1) \<and>
   (case GatedPixelCNNLayer_init unit_layer_params 2 3 3 False of
      Inl e \<Rightarrow> False
    | Inr L \<Rightarrow> GatedPixelCNNLayer_forward L (mk_tensor 1 2 1 1 (\<lambda>n c i j. 0))
                 (mk_tensor 1 2 1 1 (\<lambda>n c i j. 0)) = Inl RuntimeError)"
  by (simp add: init_odd_pos GatedPixelCNNLayer_forward_def conv2d_forward_def
      GatedActivation_forward_def tmul_def tadd_def iadd_def binop_def bcompat_def
      tmap_def slice_channels_def shape_def bdim_def)

section \<open>What each output entry reads\<close>

lemma conv_at_cong:
  assumes "dH x = dH y" and "dW x = dW y"
    and "\<And>ci ki kj. ci < conv_in cv \<Longrightarrow> ki < kernel_h cv \<Longrightarrow> kj < kernel_w cv \<Longrightarrow>
           padding_h cv \<le> i + ki \<Longrightarrow> i + ki - padding_h cv < dH y \<Longrightarrow>
           padding_w cv \<le> j + kj \<Longrightarrow> j + kj - padding_w cv < dW y \<Longrightarrow>
           elem x n ci (i + ki - padding_h cv) (j + kj - padding_w cv) =
           elem y n ci (i + ki - padding_h cv) (j + kj - padding_w cv)"
  shows "conv_at cv x n co i j = conv_at cv y n co i j"
proof -
  have "padded_at x (padding_h cv) (padding_w cv) n ci (i + ki) (j + kj) =
        padded_at y (padding_h cv) (padding_w cv) n ci (i + ki) (j + kj)"
    if "ci < conv_in cv" "ki < kernel_h cv" "kj < kernel_w cv" for ci ki kj
    using that assms by (simp add: padded_at_def)
  then show ?thesis
    unfolding conv_at_def
    by (intro arg_cong2 [where f = "(+)"] arg_cong [where f = sum_list] map_cong refl) simp
qed

lemma conv_at_1x1_cong:
  assumes "kernel_h cv = 1" "kernel_w cv = 1" "padding_h cv = 0" "padding_w cv = 0"
    and "dH x = dH y" "dW x = dW y"
    and "\<And>ci. ci < conv_in cv \<Longrightarrow> elem x n ci i j = elem y n ci i j"
  shows "conv_at cv x n co i j = conv_at cv y n co i j"
  using assms by (intro conv_at_cong) simp_all

lemma conv_at_1x1:
  assumes "kernel_h cv = 1" "kernel_w cv = 1" "padding_h cv = 0" "padding_w cv = 0"
    and "i < dH x" "j < dW x"
  shows "conv_at cv x n co i j =
           bias cv co + (\<Sum>ci\<leftarrow>[0..<conv_in cv]. weight cv co ci 0 0 * elem x n ci i j)"
  using assms by (simp add: conv_at_def padded_at_def)

lemma gate_output_cong:
  assumes "shape x = shape y" "even (dC x)"
    and "n < dN x" "c < dC x div 2" "i < dH x" "j < dW x"
    and "\<And>ch. ch < dC x \<Longrightarrow> elem x n ch i j = elem y n ch i j"
  shows "elem (gate_output x) n c i j = elem (gate_output y) n c i j"
proof -
  have d: "dN y = dN x" "dC y = dC x" "dH y = dH x" "dW y = dW x"
    using assms(1) by (simp_all add: shape_def)
  have "c < dC x" "dC x div 2 + c < dC x"
    using assms(2,4) by (auto elim!: evenE)
  then show ?thesis
    using assms by (simp add: elem_gate_output d)
qed

lemma broadcast2_cong:
  assumes "shape x = shape x'" "shape y = shape y'" "shape x = shape y"
    and "n < dN x" "c < dC x" "i < dH x" "j < dW x"
    and "elem x n c i j = elem x' n c i j" "elem y n c i j = elem y' n c i j"
  shows "elem (broadcast2 f x y) n c i j = elem (broadcast2 f x' y') n c i j"
proof -
  have "shape x' = shape y'" using assms by simp
  moreover have "n < dN x'" "c < dC x'" "i < dH x'" "j < dW x'"
    using assms(1,4-7) by (simp_all add: shape_def)
  ultimately show ?thesis
    using assms by (simp add: elem_broadcast2_same)
qed


lemma hstack_reads_left:
  assumes init: "GatedPixelCNNLayer_init prm cin cout k True = Inr L"
    and v: "shape v = (N, cin, H, W)"
    and h1: "shape h1 = (N, cin, H, W)" and h2: "shape h2 = (N, cin, H, W)"
    and pos: "0 < H" "0 < W"
    and agree: "\<And>n ch i j. n < N \<Longrightarrow> ch < cin \<Longrightarrow> i < H \<Longrightarrow> j < W \<Longrightarrow> j \<le> c \<Longrightarrow>
                  elem h1 n ch i j = elem h2 n ch i j"
    and idx: "n < N" "ch < cout" "i < H" "c < W"
  shows "elem (hstack_from_link L (link_term L v) h1 W) n ch i c =
         elem (hstack_from_link L (link_term L v) h2 W) n ch i c"
proof -
  from init_fields [OF init] obtain p where f:
    "is_causal L = True"
    "conv_in (hstack_1xN L) = cin" "conv_out (hstack_1xN L) = 2 * cout"
    "kernel_h (hstack_1xN L) = 1" "kernel_w (hstack_1xN L) = p + 1"
    "padding_h (hstack_1xN L) = 0" "padding_w (hstack_1xN L) = p + 1"
    "conv_in (hstack_residual L) = cout"
    "kernel_h (hstack_residual L) = 1" "kernel_w (hstack_residual L) = 1"
    "padding_h (hstack_residual L) = 0" "padding_w (hstack_residual L) = 0"
    by auto
  have d1: "dN h1 = N" "dC h1 = cin" "dH h1 = H" "dW h1 = W"
    using h1 by (simp_all add: shape_def)
  have d2: "dN h2 = N" "dC h2 = cin" "dH h2 = H" "dW h2 = W"
    using h2 by (simp_all add: shape_def)
  note sh1 = layer_output_shapes [OF init v h1 pos]
  note sh2 = layer_output_shapes [OF init v h2 pos]
  let ?lnk = "link_term L v"
  have A: "conv_at (hstack_1xN L) h1 n co i c = conv_at (hstack_1xN L) h2 n co i c" for co
    by (rule conv_at_cong) (use idx in \<open>auto simp add: f d1 d2 intro!: agree\<close>)
  have cs: "shape (crop_cols (conv2d_output (hstack_1xN L) h1) W) = (N, 2 * cout, H, W)"
    "shape (crop_cols (conv2d_output (hstack_1xN L) h2) W) = (N, 2 * cout, H, W)"
    using pos by (simp_all add: shape_def f d1 d2)
  have B: "elem (hstack_pregate L ?lnk h1 W) n ch' i c =
           elem (hstack_pregate L ?lnk h2 W) n ch' i c" if "ch' < 2 * cout" for ch'
    unfolding hstack_pregate_def
    by (rule broadcast2_cong)
       (use that idx sh1(2) cs A in \<open>simp_all add: shape_def\<close>)
  have C: "elem (hstack_gated L ?lnk h1 W) n ch' i c =
           elem (hstack_gated L ?lnk h2 W) n ch' i c" if "ch' < cout" for ch'
    unfolding hstack_gated_def
    by (rule gate_output_cong)
       (use that idx sh1(5) sh2(5) B in \<open>simp_all add: shape_def\<close>)
  have "conv_at (hstack_residual L) (hstack_gated L ?lnk h1 W) n ch i c =
        conv_at (hstack_residual L) (hstack_gated L ?lnk h2 W) n ch i c"
    by (rule conv_at_1x1_cong)
       (use sh1(6) sh2(6) C in \<open>simp_all add: f shape_def\<close>)
  then show ?thesis
    by (simp add: hstack_from_link_def f)
qed

lemma vstack_reads_above:
  assumes init: "GatedPixelCNNLayer_init prm cin cout k causal = Inr L"
    and v1: "shape v1 = (N, cin, H, W)" and v2: "shape v2 = (N, cin, H, W)"
    and pos: "0 < H" "0 < W"
    and agree: "\<And>n ch i j. n < N \<Longrightarrow> ch < cin \<Longrightarrow> i < H \<Longrightarrow> j < W \<Longrightarrow> i \<le> r \<Longrightarrow>
                  elem v1 n ch i j = elem v2 n ch i j"
    and idx: "n < N" "ch < cout" "r < H" "j < W"
  shows "elem (gate_output (vstack_pregate L v1)) n ch r j =
         elem (gate_output (vstack_pregate L v2)) n ch r j"
proof -
  from init_fields [OF init] obtain p where f:
    "conv_in (vstack_1xN L) = cin" "conv_out (vstack_1xN L) = cout"
    "kernel_h (vstack_1xN L) = 1" "kernel_w (vstack_1xN L) = 2 * p + 1"
    "padding_h (vstack_1xN L) = 0" "padding_w (vstack_1xN L) = p"
    "conv_in (vstack_Nx1 L) = cout" "conv_out (vstack_Nx1 L) = 2 * cout"
    "kernel_h (vstack_Nx1 L) = p + 1" "kernel_w (vstack_Nx1 L) = 1"
    "padding_h (vstack_Nx1 L) = p + 1" "padding_w (vstack_Nx1 L) = 0"
    "conv_in (vstack_1x1 L) = cin" "conv_out (vstack_1x1 L) = 2 * cout"
    "kernel_h (vstack_1x1 L) = 1" "kernel_w (vstack_1x1 L) = 1"
    "padding_h (vstack_1x1 L) = 0" "padding_w (vstack_1x1 L) = 0"
    by auto
  have d1: "dN v1 = N" "dC v1 = cin" "dH v1 = H" "dW v1 = W"
    using v1 by (simp_all add: shape_def)
  have d2: "dN v2 = N" "dC v2 = cin" "dH v2 = H" "dW v2 = W"
    using v2 by (simp_all add: shape_def)
  have res: "True \<or> cin = cout \<or> cin = 1" by simp
  have A: "conv_at (vstack_1xN L) v1 n co i' j' = conv_at (vstack_1xN L) v2 n co i' j'"
    if "i' \<le> r" for co i' j'
    by (rule conv_at_cong) (use that idx in \<open>auto simp add: f d1 d2 intro!: agree\<close>)
  have B: "conv_at (vstack_Nx1 L) (conv2d_output (vstack_1xN L) v1) n co r j =
           conv_at (vstack_Nx1 L) (conv2d_output (vstack_1xN L) v2) n co r j" for co
    by (rule conv_at_cong) (use idx in \<open>auto simp add: f d1 d2 intro!: A\<close>)
  have C: "conv_at (vstack_1x1 L) v1 n co r j = conv_at (vstack_1x1 L) v2 n co r j" for co
    by (rule conv_at_1x1_cong) (use idx in \<open>auto simp add: f d1 d2 intro!: agree\<close>)
  have vs: "shape (vstack_conv L v1) = (N, 2 * cout, H, W)"
    "shape (vstack_conv L v2) = (N, 2 * cout, H, W)"
    using pos by (simp_all add: shape_def vstack_conv_def f d1 d2)
  have ss: "shape (conv2d_output (vstack_1x1 L) v1) = (N, 2 * cout, H, W)"
    "shape (conv2d_output (vstack_1x1 L) v2) = (N, 2 * cout, H, W)"
    using pos by (simp_all add: shape_def f d1 d2)
  have D: "elem (vstack_pregate L v1) n ch' r j = elem (vstack_pregate L v2) n ch' r j"
    if "ch' < 2 * cout" for ch'
    unfolding vstack_pregate_def
    by (rule broadcast2_cong)
       (use that idx vs ss B C in \<open>simp_all add: shape_def vstack_conv_def\<close>)
  have ps: "shape (vstack_pregate L v1) = (N, 2 * cout, H, W)"
    "shape (vstack_pregate L v2) = (N, 2 * cout, H, W)"
    using vs ss by (simp_all add: shape_def vstack_pregate_def)
  show ?thesis
    by (rule gate_output_cong) (use idx ps D in \<open>simp_all add: shape_def\<close>)
qed


text \<open>
  C1. For a layer constructed with \<open>is_causal = True\<close>: if two runs have the same
  \<open>vstack_input\<close> and their \<open>hstack_input\<close>s agree at every column up to \<open>c\<close>, the
  two hstack outputs agree at every position of column \<open>c\<close>; and if two runs have the
  same \<open>hstack_input\<close> and their \<open>vstack_input\<close>s agree at every row up to \<open>r\<close>, the
  two vstack outputs agree at every position of row \<open>r\<close>. All inputs have shape
  \<open>(N, in_channels, H, W)\<close> with \<open>H, W \<ge> 1\<close>, and all runs return.
\<close>

theorem causal_layer_causality:
  assumes "odd k" and "0 < k"
    and "shape v = (N, cin, H, W)" and "shape h = (N, cin, H, W)"
    and "0 < H" and "0 < W"
    and "shape v' = (N, cin, H, W)" and "shape h' = (N, cin, H, W)"
    and "\<forall>n<N. \<forall>ch<cin. \<forall>i<H. \<forall>j<W. j \<le> c \<longrightarrow> elem h n ch i j = elem h' n ch i j"
    and "\<forall>n<N. \<forall>ch<cin. \<forall>i<H. \<forall>j<W. i \<le> r \<longrightarrow> elem v n ch i j = elem v' n ch i j"
  shows "\<exists>L. GatedPixelCNNLayer_init prm cin cout k True = Inr L \<and>
    (\<exists>vs1 hs1 sk1 vs2 hs2 sk2.
        GatedPixelCNNLayer_forward L v h = Inr (vs1, hs1, sk1) \<and>
        GatedPixelCNNLayer_forward L v h' = Inr (vs2, hs2, sk2) \<and>
        (c < W \<longrightarrow> (\<forall>n<N. \<forall>ch<cout. \<forall>i<H. elem hs1 n ch i c = elem hs2 n ch i c))) \<and>
    (\<exists>vs1 hs1 sk1 vs2 hs2 sk2.
        GatedPixelCNNLayer_forward L v h = Inr (vs1, hs1, sk1) \<and>
        GatedPixelCNNLayer_forward L v' h = Inr (vs2, hs2, sk2) \<and>
        (r < H \<longrightarrow> (\<forall>n<N. \<forall>ch<cout. \<forall>j<W. elem vs1 n ch r j = elem vs2 n ch r j)))"
proof -
  obtain L where L: "GatedPixelCNNLayer_init prm cin cout k True = Inr L"
    using init_odd_pos [OF assms(1,2)] by blast
  have res: "True \<or> cin = cout \<or> cin = 1" by simp
  note r1 = layer_forward_ok [OF L assms(3,4,5,6) res]
  note r2 = layer_forward_ok [OF L assms(3,8,5,6) res]
  note r3 = layer_forward_ok [OF L assms(7,4,5,6) res]
  have hpart: "elem (hstack_from_link L (link_term L v) h W) n ch i c =
               elem (hstack_from_link L (link_term L v) h' W) n ch i c"
    if "c < W" "n < N" "ch < cout" "i < H" for n ch i
    by (rule hstack_reads_left [OF L assms(3,4,8,5,6)]) (use that assms(9) in auto)
  have vpart: "elem (gate_output (vstack_pregate L v)) n ch r j =
               elem (gate_output (vstack_pregate L v')) n ch r j"
    if "r < H" "n < N" "ch < cout" "j < W" for n ch j
    by (rule vstack_reads_above [OF L assms(3,7,5,6)]) (use that assms(10) in auto)
  show ?thesis
    using L r1 r2 r3 hpart vpart by simp
qed

theorem causal_layer_causality_witness:
  "odd (3::int) \<and> (0::int) < 3 \<and>
   shape (mk_tensor 1 1 2 2 (\<lambda>n c i j. real (i + j))) = (1, 1, 2, 2) \<and>
   (0::nat) < 2 \<and>
   shape (mk_tensor 1 1 2 2 (\<lambda>n c i j. if i = 1 then 7 else real (i + j))) = (1, 1, 2, 2) \<and>
   shape (mk_tensor 1 1 2 2 (\<lambda>n c i j. if j = 1 then 9 else real (i + j))) = (1, 1, 2, 2) \<and>
   elem (mk_tensor 1 1 2 2 (\<lambda>n c i j. real (i + j))) 0 0 0 1 \<noteq>
     elem (mk_tensor 1 1 2 2 (\<lambda>n c i j. if j = 1 then 9 else real (i + j))) 0 0 0 1 \<and>
   elem (mk_tensor 1 1 2 2 (\<lambda>n c i j. real (i + j))) 0 0 1 0 \<noteq>
     elem (mk_tensor 1 1 2 2 (\<lambda>n c i j. if i = 1 then 7 else real (i + j))) 0 0 1 0 \<and>
   (\<exists>L. GatedPixelCNNLayer_init unit_layer_params 1 1 3 True = Inr L \<and>
    (\<exists>vs1 hs1 sk1 vs2 hs2 sk2.
        GatedPixelCNNLayer_forward L (mk_tensor 1 1 2 2 (\<lambda>n c i j. real (i + j)))
          (mk_tensor 1 1 2 2 (\<lambda>n c i j. real (i + j))) = Inr (vs1, hs1, sk1) \<and>
        GatedPixelCNNLayer_forward L (mk_tensor 1 1 2 2 (\<lambda>n c i j. real (i + j)))
          (mk_tensor 1 1 2 2 (\<lambda>n c i j. if j = 1 then 9 else real (i + j))) = Inr (vs2, hs2, sk2) \<and>
        elem hs1 0 0 0 0 = elem hs2 0 0 0 0 \<and> elem hs1 0 0 1 0 = elem hs2 0 0 1 0) \<and>
    (\<exists>vs1 hs1 sk1 vs2 hs2 sk2.
        GatedPixelCNNLayer_forward L (mk_tensor 1 1 2 2 (\<lambda>n c i j. real (i + j)))
          (mk_tensor 1 1 2 2 (\<lambda>n c i j. real (i + j))) = Inr (vs1, hs1, sk1) \<and>
        GatedPixelCNNLayer_forward L (mk_tensor 1 1 2 2 (\<lambda>n c i j. if i = 1 then 7 else real (i + j)))
          (mk_tensor 1 1 2 2 (\<lambda>n c i j. real (i + j))) = Inr (vs2, hs2, sk2) \<and>
        elem vs1 0 0 0 0 = elem vs2 0 0 0 0 \<and> elem vs1 0 0 0 1 = elem vs2 0 0 0 1))"
proof -
  define x where "x = mk_tensor 1 1 2 2 (\<lambda>n c i j. real (i + j))"
  define v' where "v' = mk_tensor 1 1 2 2 (\<lambda>n c i j. if i = 1 then 7 else real (i + j))"
  define h' where "h' = mk_tensor 1 1 2 2 (\<lambda>n c i j. if j = 1 then 9 else real (i + j))"
  have sx: "shape x = (1, 1, 2, 2)" and sv: "shape v' = (1, 1, 2, 2)"
    and sh: "shape h' = (1, 1, 2, 2)"
    by (simp_all add: x_def v'_def h'_def)
  have a: "odd (3::int)" "(0::int) < 3" "(0::nat) < 2" by simp_all
  have dh: "elem x 0 0 0 1 \<noteq> elem h' 0 0 0 1" by (simp add: x_def h'_def)
  have dv: "elem x 0 0 1 0 \<noteq> elem v' 0 0 1 0" by (simp add: x_def v'_def)
  have agh: "\<forall>n<1. \<forall>ch<1. \<forall>i<2. \<forall>j<2. j \<le> 0 \<longrightarrow> elem x n ch i j = elem h' n ch i j"
    by (simp add: x_def h'_def)
  have agv: "\<forall>n<1. \<forall>ch<1. \<forall>i<2. \<forall>j<2. i \<le> 0 \<longrightarrow> elem x n ch i j = elem v' n ch i j"
    by (simp add: x_def v'_def)
  note t = causal_layer_causality [of 3 x 1 1 2 2 x v' h' 0 0 unit_layer_params 1,
      OF a(1,2) sx sx a(3) a(3) sv sh agh agv]
  from t obtain L where LL: "GatedPixelCNNLayer_init unit_layer_params 1 1 3 True = Inr L \<and>
    (\<exists>vs1 hs1 sk1 vs2 hs2 sk2.
        GatedPixelCNNLayer_forward L x x = Inr (vs1, hs1, sk1) \<and>
        GatedPixelCNNLayer_forward L x h' = Inr (vs2, hs2, sk2) \<and>
        ((0::nat) < 2 \<longrightarrow> (\<forall>n<1. \<forall>ch<1. \<forall>i<2. elem hs1 n ch i 0 = elem hs2 n ch i 0))) \<and>
    (\<exists>vs1 hs1 sk1 vs2 hs2 sk2.
        GatedPixelCNNLayer_forward L x x = Inr (vs1, hs1, sk1) \<and>
        GatedPixelCNNLayer_forward L v' x = Inr (vs2, hs2, sk2) \<and>
        ((0::nat) < 2 \<longrightarrow> (\<forall>n<1. \<forall>ch<1. \<forall>j<2. elem vs1 n ch 0 j = elem vs2 n ch 0 j)))"
    ..
  note L = LL [THEN conjunct1]
  note H = LL [THEN conjunct2, THEN conjunct1]
  note V = LL [THEN conjunct2, THEN conjunct2]
  from H obtain vs1 hs1 sk1 vs2 hs2 sk2 where
    h1: "GatedPixelCNNLayer_forward L x x = Inr (vs1, hs1, sk1)"
    and h2: "GatedPixelCNNLayer_forward L x h' = Inr (vs2, hs2, sk2)"
    and h3: "(0::nat) < 2 \<longrightarrow> (\<forall>n<1. \<forall>ch<1. \<forall>i<2. elem hs1 n ch i 0 = elem hs2 n ch i 0)"
    by (elim exE conjE)
  have h4: "elem hs1 0 0 0 0 = elem hs2 0 0 0 0" "elem hs1 0 0 1 0 = elem hs2 0 0 1 0"
    using h3 [rule_format, of 0 0 0] h3 [rule_format, of 0 0 1] by simp_all
  have He: "\<exists>vs1 hs1 sk1 vs2 hs2 sk2.
        GatedPixelCNNLayer_forward L x x = Inr (vs1, hs1, sk1) \<and>
        GatedPixelCNNLayer_forward L x h' = Inr (vs2, hs2, sk2) \<and>
        elem hs1 0 0 0 0 = elem hs2 0 0 0 0 \<and> elem hs1 0 0 1 0 = elem hs2 0 0 1 0"
    apply (rule exI [of _ vs1], rule exI [of _ hs1], rule exI [of _ sk1])
    apply (rule exI [of _ vs2], rule exI [of _ hs2], rule exI [of _ sk2])
    apply (intro conjI h1 h2 h4)
    done
  from V obtain ws1 gs1 tk1 ws2 gs2 tk2 where
    v1: "GatedPixelCNNLayer_forward L x x = Inr (ws1, gs1, tk1)"
    and v2: "GatedPixelCNNLayer_forward L v' x = Inr (ws2, gs2, tk2)"
    and v3: "(0::nat) < 2 \<longrightarrow> (\<forall>n<1. \<forall>ch<1. \<forall>j<2. elem ws1 n ch 0 j = elem ws2 n ch 0 j)"
    by (elim exE conjE)
  have v4: "elem ws1 0 0 0 0 = elem ws2 0 0 0 0" "elem ws1 0 0 0 1 = elem ws2 0 0 0 1"
    using v3 [rule_format, of 0 0 0] v3 [rule_format, of 0 0 1] by simp_all
  have Ve: "\<exists>vs1 hs1 sk1 vs2 hs2 sk2.
        GatedPixelCNNLayer_forward L x x = Inr (vs1, hs1, sk1) \<and>
        GatedPixelCNNLayer_forward L v' x = Inr (vs2, hs2, sk2) \<and>
        elem vs1 0 0 0 0 = elem vs2 0 0 0 0 \<and> elem vs1 0 0 0 1 = elem vs2 0 0 0 1"
    apply (rule exI [of _ ws1], rule exI [of _ gs1], rule exI [of _ tk1])
    apply (rule exI [of _ ws2], rule exI [of _ gs2], rule exI [of _ tk2])
    apply (intro conjI v1 v2 v4)
    done
  have e: "\<exists>L. GatedPixelCNNLayer_init unit_layer_params 1 1 3 True = Inr L \<and>
    (\<exists>vs1 hs1 sk1 vs2 hs2 sk2.
        GatedPixelCNNLayer_forward L x x = Inr (vs1, hs1, sk1) \<and>
        GatedPixelCNNLayer_forward L x h' = Inr (vs2, hs2, sk2) \<and>
        elem hs1 0 0 0 0 = elem hs2 0 0 0 0 \<and> elem hs1 0 0 1 0 = elem hs2 0 0 1 0) \<and>
    (\<exists>vs1 hs1 sk1 vs2 hs2 sk2.
        GatedPixelCNNLayer_forward L x x = Inr (vs1, hs1, sk1) \<and>
        GatedPixelCNNLayer_forward L v' x = Inr (vs2, hs2, sk2) \<and>
        elem vs1 0 0 0 0 = elem vs2 0 0 0 0 \<and> elem vs1 0 0 0 1 = elem vs2 0 0 0 1)"
    apply (rule exI [of _ L])
    apply (intro conjI L He Ve)
    done
  show ?thesis
    by (intro conjI a sx [unfolded x_def] sv [unfolded v'_def] sh [unfolded h'_def]
        dh [unfolded x_def h'_def] dv [unfolded x_def v'_def]
        e [unfolded x_def v'_def h'_def])
qed

section \<open>The residual connection of the horizontal stack\<close>

lemma sum_list_pick:
  assumes "co < m"
  shows "(\<Sum>ci\<leftarrow>[0..<m]. (if ci = co then 1 else 0) * g ci) = (g co :: real)"
proof -
  have "(\<Sum>ci\<leftarrow>[0..<m]. (if ci = co then 1 else 0) * g ci) =
        (\<Sum>ci\<in>{0..<m}. if ci = co then g ci else 0)"
    by (simp add: interv_sum_list_conv_sum_set_nat if_distrib [of "\<lambda>w. w * _"] cong: if_cong)
  also have "\<dots> = g co"
    using assms by (simp add: sum.delta)
  finally show ?thesis .
qed

lemma conv_at_identity:
  assumes "identity_projection cv"
    and "kernel_h cv = 1" "kernel_w cv = 1" "padding_h cv = 0" "padding_w cv = 0"
    and "conv_in cv = conv_out cv" "co < conv_out cv" "i < dH x" "j < dW x"
  shows "conv_at cv x n co i j = elem x n co i j"
proof -
  have b: "bias cv co = 0"
    and w: "\<And>ci. ci < conv_in cv \<Longrightarrow> weight cv co ci 0 0 = (if ci = co then 1 else 0)"
    using assms(1,7) by (simp_all add: identity_projection_def list_all_iff)
  have "(\<Sum>ci\<leftarrow>[0..<conv_in cv]. weight cv co ci 0 0 * elem x n ci i j) =
        (\<Sum>ci\<leftarrow>[0..<conv_in cv]. (if ci = co then 1 else 0) * elem x n ci i j)"
    by (intro arg_cong [where f = sum_list] map_cong refl) (simp add: w)
  also have "\<dots> = elem x n co i j"
    using assms(6,7) by (simp add: sum_list_pick)
  finally show ?thesis
    using assms by (simp add: conv_at_1x1 b)
qed

text \<open>
  C8. In a layer that is not causal whose residual 1x1 projection is the identity,
  every entry of the hstack output is the entry of the gated activation's output
  plus the entry of \<open>hstack_input\<close> (read at channel 0 when \<open>hstack_input\<close> has a
  single channel, which the addition broadcasts). In a causal layer the hstack
  output is the residual projection of the gated activation's output, with nothing
  added to it.
\<close>

theorem hstack_residual_connection:
  assumes "odd k" and "0 < k"
    and "shape v = (N, cin, H, W)" and "shape h = (N, cin, H, W)"
    and "0 < H" and "0 < W"
  shows "(cin = cout \<or> cin = 1 \<longrightarrow>
          (\<exists>L. GatedPixelCNNLayer_init prm cin cout k False = Inr L \<and>
             (identity_projection (hstack_residual L) \<longrightarrow>
               (\<exists>vstack hstack skip.
                  GatedPixelCNNLayer_forward L v h = Inr (vstack, hstack, skip) \<and>
                  (\<forall>n<N. \<forall>c<cout. \<forall>i<H. \<forall>j<W.
                     elem hstack n c i j =
                       elem (gate_output (hstack_pregate L (link_term L v) h W)) n c i j +
                       elem h n (bidx cin c) i j))))) \<and>
         (\<exists>L. GatedPixelCNNLayer_init prm cin cout k True = Inr L \<and>
            (\<exists>vstack hstack skip.
               GatedPixelCNNLayer_forward L v h = Inr (vstack, hstack, skip) \<and>
               hstack = conv2d_output (hstack_residual L)
                          (gate_output (hstack_pregate L (link_term L v) h W))))"
proof -
  have noncausal: "\<exists>L. GatedPixelCNNLayer_init prm cin cout k False = Inr L \<and>
             (identity_projection (hstack_residual L) \<longrightarrow>
               (\<exists>vstack hstack skip.
                  GatedPixelCNNLayer_forward L v h = Inr (vstack, hstack, skip) \<and>
                  (\<forall>n<N. \<forall>c<cout. \<forall>i<H. \<forall>j<W.
                     elem hstack n c i j =
                       elem (gate_output (hstack_pregate L (link_term L v) h W)) n c i j +
                       elem h n (bidx cin c) i j)))"
    if res: "cin = cout \<or> cin = 1"
  proof -
    obtain L where L: "GatedPixelCNNLayer_init prm cin cout k False = Inr L"
      using init_odd_pos [OF assms(1,2)] by blast
    from init_fields [OF L] obtain p where f:
      "is_causal L = False"
      "conv_in (hstack_residual L) = cout" "conv_out (hstack_residual L) = cout"
      "kernel_h (hstack_residual L) = 1" "kernel_w (hstack_residual L) = 1"
      "padding_h (hstack_residual L) = 0" "padding_w (hstack_residual L) = 0"
      by auto
    have res': "False \<or> cin = cout \<or> cin = 1" using res by simp
    note ok = layer_forward_ok [OF L assms(3-6) res']
    note sh = layer_output_shapes(6) [OF L assms(3-6) res']
    let ?g = "hstack_gated L (link_term L v) h W"
    have dg: "dN ?g = N" "dC ?g = cout" "dH ?g = H" "dW ?g = W"
      using sh by (simp_all add: shape_def)
    have dh: "dN h = N" "dC h = cin" "dH h = H" "dW h = W"
      using assms(4) by (simp_all add: shape_def)
    have "elem (hstack_from_link L (link_term L v) h W) n c i j =
          elem ?g n c i j + elem h n (bidx cin c) i j"
      if idp: "identity_projection (hstack_residual L)"
        and idx: "n < N" "c < cout" "i < H" "j < W" for n c i j
    proof -
      have "conv_at (hstack_residual L) ?g n c i j = elem ?g n c i j"
        by (rule conv_at_identity [OF idp]) (use idx in \<open>simp_all add: f dg\<close>)
      then show ?thesis
        using idx by (simp add: hstack_from_link_def f Let_def broadcast2_def dg dh)
    qed
    then show ?thesis
      using L ok by (auto simp add: hstack_gated_def)
  qed
  have causal: "\<exists>L. GatedPixelCNNLayer_init prm cin cout k True = Inr L \<and>
            (\<exists>vstack hstack skip.
               GatedPixelCNNLayer_forward L v h = Inr (vstack, hstack, skip) \<and>
               hstack = conv2d_output (hstack_residual L)
                          (gate_output (hstack_pregate L (link_term L v) h W)))"
  proof -
    obtain L where L: "GatedPixelCNNLayer_init prm cin cout k True = Inr L"
      using init_odd_pos [OF assms(1,2)] by blast
    from init_fields [OF L] have f: "is_causal L = True" by auto
    have res': "True \<or> cin = cout \<or> cin = 1" by simp
    note ok = layer_forward_ok [OF L assms(3-6) res']
    show ?thesis
      using L ok by (simp add: hstack_from_link_def hstack_gated_def f)
  qed
  show ?thesis using noncausal causal by blast
qed

lemma init_params:
  assumes "GatedPixelCNNLayer_init prm cin cout k causal = Inr L"
  shows "weight (vstack_1xN L) = fst (p_vstack_1xN prm)" "bias (vstack_1xN L) = snd (p_vstack_1xN prm)"
    "weight (vstack_Nx1 L) = fst (p_vstack_Nx1 prm)" "bias (vstack_Nx1 L) = snd (p_vstack_Nx1 prm)"
    "weight (vstack_1x1 L) = fst (p_vstack_1x1 prm)" "bias (vstack_1x1 L) = snd (p_vstack_1x1 prm)"
    "weight (link L) = fst (p_link prm)" "bias (link L) = snd (p_link prm)"
    "weight (hstack_1xN L) = fst (p_hstack_1xN prm)" "bias (hstack_1xN L) = snd (p_hstack_1xN prm)"
    "weight (hstack_residual L) = fst (p_hstack_residual prm)"
    "bias (hstack_residual L) = snd (p_hstack_residual prm)"
    "weight (hstack_skip L) = fst (p_hstack_skip prm)" "bias (hstack_skip L) = snd (p_hstack_skip prm)"
proof -
  from init_Inr_D [OF assms] have k: "odd k" "0 < k" by simp_all
  have L: "GatedPixelCNNLayer_init prm cin cout k causal = Inr L" by (rule assms)
  show "weight (vstack_1xN L) = fst (p_vstack_1xN prm)" "bias (vstack_1xN L) = snd (p_vstack_1xN prm)"
    "weight (vstack_Nx1 L) = fst (p_vstack_Nx1 prm)" "bias (vstack_Nx1 L) = snd (p_vstack_Nx1 prm)"
    "weight (vstack_1x1 L) = fst (p_vstack_1x1 prm)" "bias (vstack_1x1 L) = snd (p_vstack_1x1 prm)"
    "weight (link L) = fst (p_link prm)" "bias (link L) = snd (p_link prm)"
    "weight (hstack_1xN L) = fst (p_hstack_1xN prm)" "bias (hstack_1xN L) = snd (p_hstack_1xN prm)"
    "weight (hstack_residual L) = fst (p_hstack_residual prm)"
    "bias (hstack_residual L) = snd (p_hstack_residual prm)"
    "weight (hstack_skip L) = fst (p_hstack_skip prm)" "bias (hstack_skip L) = snd (p_hstack_skip prm)"
    using L unfolding init_odd_pos [OF k] by auto
qed

lemma unit_layer_residual_identity:
  assumes L: "GatedPixelCNNLayer_init unit_layer_params 2 2 3 False = Inr L"
  shows "identity_projection (hstack_residual L)"
  using init_params(11,12) [OF L]
  by (simp add: identity_projection_def list_all_iff unit_layer_params_def identity_conv_def)

theorem hstack_residual_connection_witness:
  "odd (3::int) \<and> (0::int) < 3 \<and>
   shape (mk_tensor 1 2 1 2 (\<lambda>n c i j. real (c + j))) = (1, 2, 1, 2) \<and>
   (0::nat) < 1 \<and> (0::nat) < 2 \<and> ((2::nat) = 2 \<or> (2::nat) = 1) \<and>
   (\<exists>L. GatedPixelCNNLayer_init unit_layer_params 2 2 3 False = Inr L \<and>
      identity_projection (hstack_residual L) \<and>
      (\<exists>vstack hstack skip.
         GatedPixelCNNLayer_forward L (mk_tensor 1 2 1 2 (\<lambda>n c i j. real (c + j)))
           (mk_tensor 1 2 1 2 (\<lambda>n c i j. real (c + j))) = Inr (vstack, hstack, skip) \<and>
         elem hstack 0 1 0 1 =
           elem (gate_output (hstack_pregate L
                   (link_term L (mk_tensor 1 2 1 2 (\<lambda>n c i j. real (c + j))))
                   (mk_tensor 1 2 1 2 (\<lambda>n c i j. real (c + j))) 2)) 0 1 0 1 + 2))"
proof -
  define x where "x = mk_tensor 1 2 1 2 (\<lambda>n c i j. real (c + j))"
  have sx: "shape x = (1, 2, 1, 2)" by (simp add: x_def)
  have ex: "elem x 0 (bidx 2 1) 0 1 = 2" by (simp add: x_def bidx_def)
  have a: "odd (3::int)" "(0::int) < 3" "(0::nat) < 1" "(0::nat) < 2" by simp_all
  have b: "(2::nat) = 2 \<or> (2::nat) = 1" by simp
  have "\<exists>L. GatedPixelCNNLayer_init unit_layer_params 2 2 3 False = Inr L \<and>
     (identity_projection (hstack_residual L) \<longrightarrow>
            (\<exists>vstack hstack skip.
               GatedPixelCNNLayer_forward L x x = Inr (vstack, hstack, skip) \<and>
               (\<forall>n<1. \<forall>c<2. \<forall>i<1. \<forall>j<2.
                  elem hstack n c i j =
                    elem (gate_output (hstack_pregate L (link_term L x) x 2)) n c i j +
                    elem x n (bidx 2 c) i j)))"
    using hstack_residual_connection [of 3 x 1 2 1 2 x 2 unit_layer_params, OF a(1,2) sx sx a(3,4)]
    by blast
  then obtain L where L: "GatedPixelCNNLayer_init unit_layer_params 2 2 3 False = Inr L"
    and imp: "identity_projection (hstack_residual L) \<longrightarrow>
            (\<exists>vstack hstack skip.
               GatedPixelCNNLayer_forward L x x = Inr (vstack, hstack, skip) \<and>
               (\<forall>n<1. \<forall>c<2. \<forall>i<1. \<forall>j<2.
                  elem hstack n c i j =
                    elem (gate_output (hstack_pregate L (link_term L x) x 2)) n c i j +
                    elem x n (bidx 2 c) i j))"
    by (elim exE conjE)
  have idp: "identity_projection (hstack_residual L)"
    by (rule unit_layer_residual_identity [OF L])
  from imp [rule_format, OF idp] obtain vstack hstack skip where
    run: "GatedPixelCNNLayer_forward L x x = Inr (vstack, hstack, skip)"
    and all: "\<forall>n<1. \<forall>c<2. \<forall>i<1. \<forall>j<2.
                  elem hstack n c i j =
                    elem (gate_output (hstack_pregate L (link_term L x) x 2)) n c i j +
                    elem x n (bidx 2 c) i j"
    by (elim exE conjE)
  have "elem hstack 0 1 0 1 =
          elem (gate_output (hstack_pregate L (link_term L x) x 2)) 0 1 0 1 +
          elem x 0 (bidx 2 1) 0 1"
    using all [rule_format, of 0 1 0 1] by simp
  with ex have eq: "elem hstack 0 1 0 1 =
          elem (gate_output (hstack_pregate L (link_term L x) x 2)) 0 1 0 1 + 2"
    by (simp only:)
  have e: "\<exists>L. GatedPixelCNNLayer_init unit_layer_params 2 2 3 False = Inr L \<and>
      identity_projection (hstack_residual L) \<and>
      (\<exists>vstack hstack skip.
         GatedPixelCNNLayer_forward L x x = Inr (vstack, hstack, skip) \<and>
         elem hstack 0 1 0 1 =
           elem (gate_output (hstack_pregate L (link_term L x) x 2)) 0 1 0 1 + 2)"
    apply (rule exI [of _ L])
    apply (intro conjI L idp)
    apply (rule exI [of _ vstack])
    apply (rule exI [of _ hstack])
    apply (rule exI [of _ skip])
    apply (intro conjI run eq)
    done
  show ?thesis
    by (intro conjI a b sx [unfolded x_def] e [unfolded x_def])
qed

section \<open>The link between the two stacks\<close>

lemma upt_2: "[0..<2] = [0, Suc 0]"
  by (simp add: eval_nat_numeral)

lemma unit_layer_link_values:
  fixes L x
  defines "x \<equiv> mk_tensor 1 1 1 1 (\<lambda>n c i j. 1)"
  assumes L: "GatedPixelCNNLayer_init unit_layer_params 1 1 1 True = Inr L"
  shows "elem (hstack_from_link L (link_term L x) x 1) 0 0 0 0 = 0"
    and "elem (hstack_from_link L (conv2d_output (link L) (vstack_pregate L x)) x 1) 0 0 0 0
           = tanh 2 * sigmoid 2"
proof -
  from init_fields [OF L] obtain p where p: "(1::int) = 2 * int p + 1" and f:
    "is_causal L = True"
    "conv_in (vstack_1xN L) = 1" "conv_out (vstack_1xN L) = 1"
    "kernel_h (vstack_1xN L) = 1" "kernel_w (vstack_1xN L) = 2 * p + 1"
    "padding_h (vstack_1xN L) = 0" "padding_w (vstack_1xN L) = p"
    "conv_in (vstack_Nx1 L) = 1" "conv_out (vstack_Nx1 L) = 2 * 1"
    "kernel_h (vstack_Nx1 L) = p + 1" "kernel_w (vstack_Nx1 L) = 1"
    "padding_h (vstack_Nx1 L) = p + 1" "padding_w (vstack_Nx1 L) = 0"
    "conv_in (vstack_1x1 L) = 1" "conv_out (vstack_1x1 L) = 2 * 1"
    "kernel_h (vstack_1x1 L) = 1" "kernel_w (vstack_1x1 L) = 1"
    "padding_h (vstack_1x1 L) = 0" "padding_w (vstack_1x1 L) = 0"
    "conv_in (link L) = 2 * 1" "conv_out (link L) = 2 * 1"
    "kernel_h (link L) = 1" "kernel_w (link L) = 1"
    "padding_h (link L) = 0" "padding_w (link L) = 0"
    "conv_in (hstack_1xN L) = 1" "conv_out (hstack_1xN L) = 2 * 1"
    "kernel_h (hstack_1xN L) = 1" "kernel_w (hstack_1xN L) = p + 1"
    "padding_h (hstack_1xN L) = 0"
    "padding_w (hstack_1xN L) = p + (if True then 1 else 0)"
    "conv_in (hstack_residual L) = 1" "conv_out (hstack_residual L) = 1"
    "kernel_h (hstack_residual L) = 1" "kernel_w (hstack_residual L) = 1"
    "padding_h (hstack_residual L) = 0" "padding_w (hstack_residual L) = 0"
    by blast
  have p0: "p = 0" using p by simp
  note w = init_params [OF L]
  show "elem (hstack_from_link L (link_term L x) x 1) 0 0 0 0 = 0"
    by (simp add: hstack_from_link_def hstack_gated_def gate_output_def hstack_pregate_def
      broadcast2_def conv_at_def padded_at_def link_term_def vstack_conv_def
      tmap_def slice_channels_def bidx_def bdim_def unit_conv_def
      unit_layer_params_def identity_conv_def upt_2 Let_def f w p0 x_def)
  show "elem (hstack_from_link L (conv2d_output (link L) (vstack_pregate L x)) x 1) 0 0 0 0
           = tanh 2 * sigmoid 2"
    by (simp add: hstack_from_link_def hstack_gated_def gate_output_def hstack_pregate_def
      broadcast2_def conv_at_def padded_at_def vstack_conv_def
      vstack_pregate_def tmap_def slice_channels_def bidx_def bdim_def unit_conv_def
      unit_layer_params_def identity_conv_def upt_2 Let_def f w p0 x_def)
qed


text \<open>
  C9, as amended. The term added to the horizontal stack before gating is the 1x1
  link convolution applied to the cropped output of the two vertical convolutions,
  as it is before the 1x1 shortcut of the vertical stack is added to it; the tensor
  passed to the gated activation to produce the vstack output is that cropped output
  plus the shortcut. The hstack and skip outputs are functions of the link term and
  \<open>hstack_input\<close> alone, so the link term is the only way \<open>vstack_input\<close> reaches
  them.
\<close>

theorem link_feeds_hstack:
  assumes "odd k" and "0 < k"
    and "shape v = (N, cin, H, W)" and "shape h = (N, cin, H, W)"
    and "0 < H" and "0 < W"
    and "causal \<or> cin = cout \<or> cin = 1"
  shows "\<exists>L. GatedPixelCNNLayer_init prm cin cout k causal = Inr L \<and>
           (\<exists>vstack hstack skip.
              GatedPixelCNNLayer_forward L v h = Inr (vstack, hstack, skip) \<and>
              vstack = gate_output (broadcast2 (+) (vstack_conv L v)
                                      (conv2d_output (vstack_1x1 L) v)) \<and>
              hstack = hstack_from_link L (conv2d_output (link L) (vstack_conv L v)) h W \<and>
              skip = skip_from_link L (conv2d_output (link L) (vstack_conv L v)) h W)"
proof -
  obtain L where L: "GatedPixelCNNLayer_init prm cin cout k causal = Inr L"
    using init_odd_pos [OF assms(1,2)] by blast
  have "GatedPixelCNNLayer_forward L v h =
     Inr (gate_output (broadcast2 (+) (vstack_conv L v) (conv2d_output (vstack_1x1 L) v)),
          hstack_from_link L (conv2d_output (link L) (vstack_conv L v)) h W,
          skip_from_link L (conv2d_output (link L) (vstack_conv L v)) h W)"
    using layer_forward_ok [OF L assms(3-7)]
    by (simp only: vstack_pregate_def link_term_def)
  with L show ?thesis by blast
qed

theorem link_feeds_hstack_witness:
  "odd (3::int) \<and> (0::int) < 3 \<and>
   shape (mk_tensor 1 1 2 2 (\<lambda>n c i j. real (i + j))) = (1, 1, 2, 2) \<and>
   (0::nat) < 2 \<and> (True \<or> (1::nat) = 2 \<or> (1::nat) = 1) \<and>
   (\<exists>L. GatedPixelCNNLayer_init unit_layer_params 1 2 3 True = Inr L \<and>
      (\<exists>vstack hstack skip.
         GatedPixelCNNLayer_forward L (mk_tensor 1 1 2 2 (\<lambda>n c i j. real (i + j)))
           (mk_tensor 1 1 2 2 (\<lambda>n c i j. real (i + j))) = Inr (vstack, hstack, skip) \<and>
         vstack = gate_output (broadcast2 (+)
                    (vstack_conv L (mk_tensor 1 1 2 2 (\<lambda>n c i j. real (i + j))))
                    (conv2d_output (vstack_1x1 L) (mk_tensor 1 1 2 2 (\<lambda>n c i j. real (i + j))))) \<and>
         hstack = hstack_from_link L
                    (conv2d_output (link L)
                       (vstack_conv L (mk_tensor 1 1 2 2 (\<lambda>n c i j. real (i + j)))))
                    (mk_tensor 1 1 2 2 (\<lambda>n c i j. real (i + j))) 2 \<and>
         skip = skip_from_link L
                    (conv2d_output (link L)
                       (vstack_conv L (mk_tensor 1 1 2 2 (\<lambda>n c i j. real (i + j)))))
                    (mk_tensor 1 1 2 2 (\<lambda>n c i j. real (i + j))) 2))"
proof -
  define x where "x = mk_tensor 1 1 2 2 (\<lambda>n c i j. real (i + j))"
  have sx: "shape x = (1, 1, 2, 2)" by (simp add: x_def)
  have a: "odd (3::int)" "(0::int) < 3" "(0::nat) < 2" by simp_all
  have b: "True \<or> (1::nat) = 2 \<or> (1::nat) = 1" by simp
  note e = link_feeds_hstack [of 3 x 1 1 2 2 x True 2 unit_layer_params, OF a(1,2) sx sx a(3) a(3) b]
  show ?thesis
    by (intro conjI a b sx [unfolded x_def] e [unfolded x_def])
qed

text \<open>
  As stated, the claim fails. On a causal layer with kernel size 1, one input and one
  output channel and all weights 1, and the 1x1x1x1 input holding 1, the cropped
  vertical convolution is 0 (row 0 reads only padding), so the link term of the code
  is 0 and the hstack output is 0; the link convolution applied to the vertical stack
  after the shortcut is added would be 2 and give \<open>tanh 2 * sigmoid 2\<close>.
\<close>

theorem link_after_shortcut_counterexample:
  "(case GatedPixelCNNLayer_init unit_layer_params 1 1 1 True of
      Inl e \<Rightarrow> False
    | Inr L \<Rightarrow>
       (case GatedPixelCNNLayer_forward L (mk_tensor 1 1 1 1 (\<lambda>n c i j. 1))
               (mk_tensor 1 1 1 1 (\<lambda>n c i j. 1)) of
          Inl e \<Rightarrow> False
        | Inr (vstack, hstack, skip) \<Rightarrow>
            elem hstack 0 0 0 0 \<noteq>
            elem (hstack_from_link L
                    (conv2d_output (link L) (vstack_pregate L (mk_tensor 1 1 1 1 (\<lambda>n c i j. 1))))
                    (mk_tensor 1 1 1 1 (\<lambda>n c i j. 1)) 1) 0 0 0 0))"
proof -
  define x where "x = mk_tensor 1 1 1 1 (\<lambda>n c i j. 1)"
  have sx: "shape x = (1, 1, 1, 1)" by (simp add: x_def)
  have a: "odd (1::int)" "(0::int) < 1" "(0::nat) < 1" by simp_all
  have b: "True \<or> (1::nat) = 1 \<or> (1::nat) = 1" by simp
  obtain L where L: "GatedPixelCNNLayer_init unit_layer_params 1 1 1 True = Inr L"
    using init_odd_pos [OF a(1,2)] by blast
  note run = layer_forward_ok [OF L sx sx a(3) a(3) b]
  note v = unit_layer_link_values [OF L, folded x_def]
  have pos: "0 < tanh (2::real) * sigmoid 2"
    by (intro mult_pos_pos sigmoid_pos) simp
  have ne: "elem (hstack_from_link L (link_term L x) x 1) 0 0 0 0 \<noteq>
      elem (hstack_from_link L (conv2d_output (link L) (vstack_pregate L x)) x 1) 0 0 0 0"
    unfolding v using pos by linarith
  have "(case GatedPixelCNNLayer_init unit_layer_params 1 1 1 True of
      Inl e \<Rightarrow> False
    | Inr L \<Rightarrow>
       (case GatedPixelCNNLayer_forward L x x of
          Inl e \<Rightarrow> False
        | Inr (vstack, hstack, skip) \<Rightarrow>
            elem hstack 0 0 0 0 \<noteq>
            elem (hstack_from_link L (conv2d_output (link L) (vstack_pregate L x)) x 1) 0 0 0 0))"
    by (simp only: L run sum.case prod.case ne not_False_eq_True)
  then show ?thesis unfolding x_def .
qed

section \<open>The model's forward pass\<close>

lemma dims_tmap [simp]:
  "dN (tmap f x) = dN x" "dC (tmap f x) = dC x" "dH (tmap f x) = dH x" "dW (tmap f x) = dW x"
  "elem (tmap f x) n c i j = f (elem x n c i j)"
  by (simp_all add: tmap_def)

lemma mapE_ok:
  assumes "\<forall>x\<in>set xs. \<exists>y. f x = Inr y"
  shows "\<exists>ys. mapE f xs = Inr ys \<and> (\<forall>y\<in>set ys. \<exists>x. f x = Inr y)"
  using assms
proof (induction xs)
  case Nil
  then show ?case by simp
next
  case (Cons x xs)
  then obtain y ys where "f x = Inr y" "mapE f xs = Inr ys" "\<forall>y\<in>set ys. \<exists>x. f x = Inr y"
    by auto
  then show ?case by auto
qed

lemma gated_loop_ok:
  assumes "\<forall>L\<in>set Ls. \<exists>prm. GatedPixelCNNLayer_init prm G G 3 False = Inr L"
    and "shape v = (N, G, H, W)" and "shape h = (N, G, H, W)" and "shape s = (N, G, H, W)"
    and "0 < H" and "0 < W"
  shows "\<exists>v' h' s'. gated_loop Ls v h s = Inr (v', h', s') \<and> shape v' = (N, G, H, W) \<and>
           shape h' = (N, G, H, W) \<and> shape s' = (N, G, H, W)"
  using assms
proof (induction Ls arbitrary: v h s)
  case Nil
  then show ?case by simp
next
  case (Cons L Ls)
  from Cons.prems(1) obtain prm where L: "GatedPixelCNNLayer_init prm G G 3 False = Inr L"
    by auto
  have res: "False \<or> G = G \<or> G = 1" by simp
  note ok = layer_forward_ok [OF L Cons.prems(2,3,5,6) res]
  note sh = layer_output_shapes(4,7,8) [OF L Cons.prems(2,3,5,6) res]
  let ?v = "gate_output (vstack_pregate L v)"
  let ?h = "hstack_from_link L (link_term L v) h W"
  let ?k = "skip_from_link L (link_term L v) h W"
  have add: "iadd s ?k = Inr (broadcast2 (+) s ?k)"
    by (rule iadd_same_shape) (simp add: Cons.prems(4) sh)
  have ss: "shape (broadcast2 (+) s ?k) = (N, G, H, W)"
    using shape_broadcast2_same [of s ?k "(+)"] by (simp add: Cons.prems(4) sh)
  have rest: "\<forall>L\<in>set Ls. \<exists>prm. GatedPixelCNNLayer_init prm G G 3 False = Inr L"
    using Cons.prems(1) by simp
  from Cons.IH [OF rest sh(1) sh(3) ss Cons.prems(5,6)]
  show ?case by (simp add: ok add)
qed

lemma div_flat: "j < (W::nat) \<Longrightarrow> (a * W + j) div W = a"
  by (cases "W = 0") (simp_all add: div_mult_self3)

lemma mod_flat: "j < (W::nat) \<Longrightarrow> (a * W + j) mod W = j"
  by simp

lemma flat_index:
  fixes n c i j C H W :: nat
  assumes "c < C" "i < H" "j < W"
  shows "(((n * C + c) * H + i) * W + j) div (C * H * W) = n"
    and "((((n * C + c) * H + i) * W + j) div (H * W)) mod C = c"
    and "((((n * C + c) * H + i) * W + j) div W) mod H = i"
    and "(((n * C + c) * H + i) * W + j) mod W = j"
proof -
  let ?k = "((n * C + c) * H + i) * W + j"
  have a: "?k div W = (n * C + c) * H + i"
    by (rule div_flat [OF assms(3)])
  have "?k div (H * W) = ?k div W div H"
    by (simp only: div_mult2_eq mult.commute [of H W])
  then have b: "?k div (H * W) = n * C + c"
    by (simp only: a div_flat [OF assms(2)])
  have cw: "C * H * W = (H * W) * C" by (simp add: mult_ac)
  have "?k div (C * H * W) = ?k div (H * W) div C"
    unfolding cw by (rule div_mult2_eq)
  then show "?k div (C * H * W) = n"
    by (simp only: b div_flat [OF assms(1)])
  show "(?k div (H * W)) mod C = c"
    by (simp only: b mod_flat [OF assms(1)])
  show "(?k div W) mod H = i"
    by (simp only: a mod_flat [OF assms(2)])
  show "?k mod W = j"
    by (rule mod_flat [OF assms(3)])
qed

lemma channel_index: "d < D \<Longrightarrow> c < C \<Longrightarrow> d * C + c < D * (C::nat)"
proof -
  assume "d < D" "c < C"
  then have "d * C + c < d * C + C" by simp
  also have "\<dots> = (d + 1) * C" by simp
  also have "\<dots> \<le> D * C" using \<open>d < D\<close> by (intro mult_le_mono1) simp
  finally show ?thesis .
qed

lemma view5_ok:
  assumes "shape y = (N, D * C, H, W)"
  shows "\<exists>z. view5 y (N, D, C, H, W) = Inr z \<and> e0 z = N \<and> e1 z = D \<and> e2 z = C \<and>
           e3 z = H \<and> e4 z = W \<and>
           (\<forall>n d c i j. d < D \<longrightarrow> c < C \<longrightarrow> i < H \<longrightarrow> j < W \<longrightarrow>
              elem5 z n d c i j = elem y n (d * C + c) i j)"
proof -
  have d: "dN y = N" "dC y = D * C" "dH y = H" "dW y = W"
    using assms by (simp_all add: shape_def)
  have "flat_elem y ((((n * D + d') * C + c) * H + i) * W + j) = elem y n (d' * C + c) i j"
    if "d' < D" "c < C" "i < H" "j < W" for n d' c i j
  proof -
    have e: "(n * D + d') * C + c = n * (D * C) + (d' * C + c)"
      by (simp add: algebra_simps)
    have lt: "d' * C + c < D * C" by (rule channel_index [OF that(1,2)])
    show ?thesis
      unfolding flat_elem_def d e
      by (simp only: flat_index [OF lt that(3,4)])
  qed
  then show ?thesis
    by (simp add: view5_def d)
qed

lemma head_forward_ok:
  assumes "shape s = (N, G, H, W)" and "0 < H" and "0 < W"
    and "conv_in c1 = G" "kernel_h c1 = 1" "kernel_w c1 = 1" "padding_h c1 = 0" "padding_w c1 = 0"
    and "conv_in c2 = conv_out c1" "kernel_h c2 = 1" "kernel_w c2 = 1"
      "padding_h c2 = 0" "padding_w c2 = 0"
  shows "Sequential_forward [ReLU, Conv c1, ReLU, Conv c2, Sigmoid] s =
           Inr (tmap sigmoid (conv2d_output c2 (tmap relu (conv2d_output c1 (tmap relu s)))))"
    and "shape (tmap sigmoid (conv2d_output c2 (tmap relu (conv2d_output c1 (tmap relu s))))) =
           (N, conv_out c2, H, W)"
proof -
  have d: "dN s = N" "dC s = G" "dH s = H" "dW s = W"
    using assms(1) by (simp_all add: shape_def)
  have s1: "conv2d_forward c1 (tmap relu s) = Inr (conv2d_output c1 (tmap relu s))"
    using assms by (intro conv2d_forward_ok) (simp_all add: d)
  have s2: "conv2d_forward c2 (tmap relu (conv2d_output c1 (tmap relu s))) =
              Inr (conv2d_output c2 (tmap relu (conv2d_output c1 (tmap relu s))))"
    using assms by (intro conv2d_forward_ok) (simp_all add: d)
  show "Sequential_forward [ReLU, Conv c1, ReLU, Conv c2, Sigmoid] s =
           Inr (tmap sigmoid (conv2d_output c2 (tmap relu (conv2d_output c1 (tmap relu s)))))"
    by (simp add: s1 s2)
  show "shape (tmap sigmoid (conv2d_output c2 (tmap relu (conv2d_output c1 (tmap relu s))))) =
           (N, conv_out c2, H, W)"
    using assms by (simp add: shape_def d)
qed

text \<open>
  C3. For every input of shape \<open>(N, C, H, W)\<close> with \<open>H, W \<ge> 1\<close> and a model
  constructed with \<open>in_channels = C\<close>, the forward pass returns a tensor of shape
  \<open>(N, out_dim, C, H, W)\<close>; its entry at \<open>(n, d, c, i, j)\<close> is the entry at
  \<open>(n, d * C + c, i, j)\<close> of the head's output, which has shape
  \<open>(N, out_dim * C, H, W)\<close>; and every entry lies between 0 and 1.
\<close>

theorem model_forward_output:
  assumes "shape x = (N, C, H, W)" and "0 < H" and "0 < W"
  shows "\<exists>M. GatedPixelCNN_init prm C odim n_gated G hc = Inr M \<and>
    (\<exists>vstack hstack skip_connections t y.
       bindE (GatedPixelCNNLayer_forward (input_layer M) x x)
         (\<lambda>(v, h, s). gated_loop (gated_layers M) v h s) = Inr (vstack, hstack, skip_connections) \<and>
       Sequential_forward (head M) skip_connections = Inr t \<and>
       shape t = (N, odim * C, H, W) \<and>
       GatedPixelCNN_forward M x = Inr y \<and>
       (e0 y, e1 y, e2 y, e3 y, e4 y) = (N, odim, C, H, W) \<and>
       (\<forall>n<N. \<forall>d<odim. \<forall>c<C. \<forall>i<H. \<forall>j<W.
          elem5 y n d c i j = elem t n (d * C + c) i j \<and>
          0 \<le> elem5 y n d c i j \<and> elem5 y n d c i j \<le> 1))"
proof -
  have k7: "odd (7::int)" "(0::int) < 7" and k3: "odd (3::int)" "(0::int) < 3" by simp_all
  obtain inp where I: "GatedPixelCNNLayer_init (p_input prm) C G 7 True = Inr inp"
    using init_odd_pos [OF k7] by blast
  have "\<forall>i\<in>set [0..<n_gated]. \<exists>L. GatedPixelCNNLayer_init (p_gated prm i) G G 3 False = Inr L"
    using init_odd_pos [OF k3] by blast
  from mapE_ok [OF this] obtain gl where
    gl: "mapE (\<lambda>i. GatedPixelCNNLayer_init (p_gated prm i) G G 3 False) [0..<n_gated] = Inr gl"
    and glp: "\<forall>L\<in>set gl. \<exists>i. GatedPixelCNNLayer_init (p_gated prm i) G G 3 False = Inr L"
    by blast
  have glp': "\<forall>L\<in>set gl. \<exists>q. GatedPixelCNNLayer_init q G G 3 False = Inr L"
    using glp by blast
  define c1 where "c1 = \<lparr>conv_in = G, conv_out = hc, kernel_h = nat 1, kernel_w = nat 1,
      padding_h = nat 0, padding_w = nat 0, weight = fst (p_head1 prm), bias = snd (p_head1 prm)\<rparr>"
  define c2 where "c2 = \<lparr>conv_in = hc, conv_out = odim * C, kernel_h = nat 1, kernel_w = nat 1,
      padding_h = nat 0, padding_w = nat 0, weight = fst (p_head2 prm), bias = snd (p_head2 prm)\<rparr>"
  have C1: "Conv2d (p_head1 prm) G hc (1, 1) (0, 0) = Inr c1"
    by (simp add: Conv2d_def c1_def)
  have C2: "Conv2d (p_head2 prm) hc (odim * C) (1, 1) (0, 0) = Inr c2"
    by (simp add: Conv2d_def c2_def)
  define M where "M = \<lparr>out_dim = odim, input_layer = inp, gated_layers = gl,
          head = [ReLU, Conv c1, ReLU, Conv c2, Sigmoid]\<rparr>"
  have Mf: "out_dim M = odim" "input_layer M = inp" "gated_layers M = gl"
    "head M = [ReLU, Conv c1, ReLU, Conv c2, Sigmoid]"
    by (simp_all add: M_def)
  have init: "GatedPixelCNN_init prm C odim n_gated G hc = Inr M"
    by (simp add: GatedPixelCNN_init_def I gl C1 C2 M_def)
  have res: "True \<or> C = G \<or> C = 1" by simp
  note r0 = layer_forward_ok [OF I assms(1) assms(1) assms(2,3) res]
  note sh0 = layer_output_shapes(4,7,8) [OF I assms(1) assms(1) assms(2,3) res]
  from gated_loop_ok [OF glp' sh0(1) sh0(3) sh0(2) assms(2,3)]
  obtain v' h' s' where
    loop: "gated_loop gl (gate_output (vstack_pregate inp x))
             (hstack_from_link inp (link_term inp x) x W)
             (skip_from_link inp (link_term inp x) x W) = Inr (v', h', s')"
    and ss: "shape s' = (N, G, H, W)"
    by blast
  have layers: "bindE (GatedPixelCNNLayer_forward inp x x)
         (\<lambda>(v, h, s). gated_loop gl v h s) = Inr (v', h', s')"
    by (simp add: r0 loop)
  let ?t = "tmap sigmoid (conv2d_output c2 (tmap relu (conv2d_output c1 (tmap relu s'))))"
  have cf: "conv_in c1 = G" "kernel_h c1 = 1" "kernel_w c1 = 1" "padding_h c1 = 0"
    "padding_w c1 = 0" "conv_in c2 = conv_out c1" "kernel_h c2 = 1" "kernel_w c2 = 1"
    "padding_h c2 = 0" "padding_w c2 = 0" "conv_out c2 = odim * C"
    by (simp_all add: c1_def c2_def)
  note hd = head_forward_ok [OF ss assms(2,3) cf(1-10)]
  have st: "shape ?t = (N, odim * C, H, W)"
    using hd(2) by (simp only: cf(11))
  from view5_ok [OF st] obtain y where
    y: "view5 ?t (N, odim, C, H, W) = Inr y"
    and ye: "e0 y = N" "e1 y = odim" "e2 y = C" "e3 y = H" "e4 y = W"
    and yv: "\<forall>n d c i j. d < odim \<longrightarrow> c < C \<longrightarrow> i < H \<longrightarrow> j < W \<longrightarrow>
              elem5 y n d c i j = elem ?t n (d * C + c) i j"
    by blast
  have dx: "dN x = N" "dC x = C" "dH x = H" "dW x = W"
    using assms(1) by (simp_all add: shape_def)
  have fwd: "GatedPixelCNN_forward M x = Inr y"
    unfolding GatedPixelCNN_forward_def Let_def Mf dx
    by (simp only: r0 bindE_Inr prod.case loop hd(1) y)
  have rng: "0 \<le> elem ?t n ch i j \<and> elem ?t n ch i j \<le> 1" for n ch i j
    using sigmoid_pos [of "elem (conv2d_output c2 (tmap relu (conv2d_output c1 (tmap relu s')))) n ch i j"]
      sigmoid_lt_1 [of "elem (conv2d_output c2 (tmap relu (conv2d_output c1 (tmap relu s')))) n ch i j"]
    by (simp only: dims_tmap) simp
  have ent: "\<forall>n<N. \<forall>d<odim. \<forall>c<C. \<forall>i<H. \<forall>j<W.
          elem5 y n d c i j = elem ?t n (d * C + c) i j \<and>
          0 \<le> elem5 y n d c i j \<and> elem5 y n d c i j \<le> 1"
    using yv rng by simp
  have "\<exists>vstack hstack skip_connections t y.
       bindE (GatedPixelCNNLayer_forward (input_layer M) x x)
         (\<lambda>(v, h, s). gated_loop (gated_layers M) v h s) = Inr (vstack, hstack, skip_connections) \<and>
       Sequential_forward (head M) skip_connections = Inr t \<and>
       shape t = (N, odim * C, H, W) \<and>
       GatedPixelCNN_forward M x = Inr y \<and>
       (e0 y, e1 y, e2 y, e3 y, e4 y) = (N, odim, C, H, W) \<and>
       (\<forall>n<N. \<forall>d<odim. \<forall>c<C. \<forall>i<H. \<forall>j<W.
          elem5 y n d c i j = elem t n (d * C + c) i j \<and>
          0 \<le> elem5 y n d c i j \<and> elem5 y n d c i j \<le> 1)"
    apply (rule exI [of _ v'], rule exI [of _ h'], rule exI [of _ s'])
    apply (rule exI [of _ ?t], rule exI [of _ y])
    unfolding Mf
    apply (intro conjI layers hd(1) st fwd ent)
    apply (simp only: ye)
    done
  with init show ?thesis by blast
qed

theorem model_forward_output_witness:
  "shape (mk_tensor 1 1 3 3 (\<lambda>n c i j. 0)) = (1, 1, 3, 3) \<and> (0::nat) < 3 \<and>
   (\<exists>M. GatedPixelCNN_init unit_model_params 1 1 0 4 2 = Inr M \<and>
      (\<exists>y. GatedPixelCNN_forward M (mk_tensor 1 1 3 3 (\<lambda>n c i j. 0)) = Inr y \<and>
           (e0 y, e1 y, e2 y, e3 y, e4 y) = (1, 1, 1, 3, 3) \<and>
           0 \<le> elem5 y 0 0 0 2 2 \<and> elem5 y 0 0 0 2 2 \<le> 1))"
proof -
  define x where "x = mk_tensor 1 1 3 3 (\<lambda>n c i j. 0)"
  have sx: "shape x = (1, 1, 3, 3)" by (simp add: x_def)
  have a: "(0::nat) < 3" by simp
  from model_forward_output [of x 1 1 3 3 unit_model_params 1 0 4 2, OF sx a a]
  obtain M where MM: "GatedPixelCNN_init unit_model_params 1 1 0 4 2 = Inr M \<and>
    (\<exists>vstack hstack skip_connections t y.
       bindE (GatedPixelCNNLayer_forward (input_layer M) x x)
         (\<lambda>(v, h, s). gated_loop (gated_layers M) v h s) = Inr (vstack, hstack, skip_connections) \<and>
       Sequential_forward (head M) skip_connections = Inr t \<and>
       shape t = (1, 1 * 1, 3, 3) \<and>
       GatedPixelCNN_forward M x = Inr y \<and>
       (e0 y, e1 y, e2 y, e3 y, e4 y) = (1, 1, 1, 3, 3) \<and>
       (\<forall>n<1. \<forall>d<1. \<forall>c<1. \<forall>i<3. \<forall>j<3.
          elem5 y n d c i j = elem t n (d * 1 + c) i j \<and>
          0 \<le> elem5 y n d c i j \<and> elem5 y n d c i j \<le> 1))"
    ..
  note M = MM [THEN conjunct1]
  from MM [THEN conjunct2] obtain vstack hstack skip_connections t y where
    "bindE (GatedPixelCNNLayer_forward (input_layer M) x x)
         (\<lambda>(v, h, s). gated_loop (gated_layers M) v h s) = Inr (vstack, hstack, skip_connections)"
    and "Sequential_forward (head M) skip_connections = Inr t"
    and "shape t = (1, 1 * 1, 3, 3)"
    and fwd: "GatedPixelCNN_forward M x = Inr y"
    and sh: "(e0 y, e1 y, e2 y, e3 y, e4 y) = (1, 1, 1, 3, 3)"
    and all: "\<forall>n<1. \<forall>d<1. \<forall>c<1. \<forall>i<3. \<forall>j<3.
          elem5 y n d c i j = elem t n (d * 1 + c) i j \<and>
          0 \<le> elem5 y n d c i j \<and> elem5 y n d c i j \<le> 1"
    by (elim exE conjE)
  have r: "0 \<le> elem5 y 0 0 0 2 2" "elem5 y 0 0 0 2 2 \<le> 1"
    using all [rule_format, of 0 0 0 2 2] by simp_all
  have e: "\<exists>M. GatedPixelCNN_init unit_model_params 1 1 0 4 2 = Inr M \<and>
      (\<exists>y. GatedPixelCNN_forward M x = Inr y \<and>
           (e0 y, e1 y, e2 y, e3 y, e4 y) = (1, 1, 1, 3, 3) \<and>
           0 \<le> elem5 y 0 0 0 2 2 \<and> elem5 y 0 0 0 2 2 \<le> 1)"
    apply (rule exI [of _ M])
    apply (rule conjI [OF M])
    apply (rule exI [of _ y])
    apply (intro conjI fwd sh r)
    done
  show ?thesis
    by (intro conjI a sx [unfolded x_def] e [unfolded x_def])
qed

end
